theory Spec2Isabelle
  imports Complex_Main "HOL-Library.Multiset" "HOL-Library.Product_Lexorder"
begin

section \<open>Documents of the inventory ledger\<close>

text \<open>
  The repository keeps its stock as a collection of InventoryTransaction documents
  (Models/InventoryTransaction.js) and derives every stock figure from it by aggregation.
  Quantities are JavaScript numbers; they are modelled as exact rationals, so the rounding
  of binary floating point is outside this development. Object ids are natural numbers (the
  number that the 24 hexadecimal digits of an id denote), dates are integers
  (milliseconds).

  A value of a request is represented by what the source makes of it. Where the source
  casts the value before it uses it (\<open>new ObjectId(hospital)\<close>, \<open>new Date(cutoffDate)\<close>,
  \<open>Number(qty)\<close>), the request carries the value the text denotes, and malformed texts are
  not represented. Where the source uses the text itself, the request carries the text: the
  two hospitals of a transfer are compared as texts before they are cast, and the expiry
  date of a request is handed on as it was received, to the model constructor (which casts
  it) and, in updateStock, to the \<open>$match\<close> stage of the projection (which does not).

  Text fields that no operation reads back (uom, notes, refCode, createdBy, messages) are
  not represented; batch labels are taken as already trimmed.
\<close>

datatype txType = IN | OUT | ADJUST

datatype sign = SIGN_IN | SIGN_OUT

datatype refType = PO | PO_RECEIPT | ISSUE | ADJ | XFER | OTHER

datatype reason =
    PURCHASE_RECEIPT | CONSUMPTION | RETURN_IN | RETURN_OUT | ADJUST_POS | ADJUST_NEG
  | TRANSFER_IN | TRANSFER_OUT | WRITE_OFF | REASON_OTHER

record inventoryTransaction =
  oid :: nat
  hospital :: nat
  medication :: nat
  txType :: txType
  qty :: rat
  adjustSign :: "sign option"
  lot :: "string option"
  expiryDate :: "int option"
  unitCost :: "rat option"
  refType :: refType
  refId :: "nat option"
  reason :: reason
  createdAt :: int

text \<open>The kinds of failure an operation can end with. \<open>BadRequest\<close> is a 400 reply of a
  controller, \<open>NotFound\<close> a 404, \<open>InvalidState\<close> the 409 of receivePO, \<open>SafetyStockViolation\<close>
  the 409 of the safety-stock rule with the projected stock and the floor of its message,
  \<open>ValidationError\<close> an error raised by a model's validation when a document is saved,
  \<open>MedicationNotFoundThrown\<close> the plain Error that receivePO throws inside its
  transaction, \<open>InvalidObjectId\<close> the error that \<open>new ObjectId\<close> throws for a text that is not
  an id, \<open>DuplicateKey\<close> the error of an insert that repeats the value of a unique index.\<close>

datatype badRequest =
    MissingFields | InvalidAdjustSign | SameHospital | InvalidAction
  | EmptyItems | InvalidItem | ItemNotInPO

datatype validationFailure =
    QtyMustBePositive | AdjustSignRequired | QtyBelowMin | UnitCostNegative
  | NoLines | LineQtyBelowMin | LinePriceNegative | TitleTooLong

datatype error =
    BadRequest badRequest
  | NotFound
  | InvalidState
  | SafetyStockViolation rat rat
  | ValidationError validationFailure
  | MedicationNotFoundThrown
  | InvalidObjectId
  | DuplicateKey

subsection \<open>Values of a request\<close>

text \<open>The expiry date of a request body: a JSON text (or number) that Mongoose casts to the
  date \<open>castDate\<close> when it is assigned to the \<open>expiryDate\<close> path of a document. An absent or
  empty value is \<open>None\<close> in the body that carries it.\<close>

datatype jsonDate = DateText (castDate: int)

text \<open>\<open>new mongoose.Types.ObjectId(text)\<close>: the text must be 24 hexadecimal digits, in
  either letter case, and the id is the number they denote; any other text throws.\<close>

definition hexDigit :: "char \<Rightarrow> nat option" where
  "hexDigit c =
     (let n = (of_char c :: nat)
      in if 48 \<le> n \<and> n \<le> 57 then Some (n - 48)
         else if 97 \<le> n \<and> n \<le> 102 then Some (n - 87)
         else if 65 \<le> n \<and> n \<le> 70 then Some (n - 55)
         else None)"

fun hexValue :: "nat \<Rightarrow> string \<Rightarrow> nat option" where
  "hexValue acc [] = Some acc"
| "hexValue acc (c # cs) =
     (case hexDigit c of None \<Rightarrow> None | Some v \<Rightarrow> hexValue (16 * acc + v) cs)"

definition newObjectId :: "string \<Rightarrow> nat option" where
  "newObjectId t = (if length t = 24 then hexValue 0 t else None)"

subsection \<open>Signed quantity\<close>

text \<open>\<open>signedQtyExpr\<close> is the \<open>$switch\<close> expression both controllers use in their pipelines:
  the first branch whose case holds gives the value, and the default is 0.\<close>

definition signedQtyExpr :: "inventoryTransaction \<Rightarrow> rat" where
  "signedQtyExpr d =
     (if txType d = IN then qty d
      else if txType d = OUT then qty d * (- 1)
      else if txType d = ADJUST \<and> adjustSign d = Some SIGN_IN then qty d
      else if txType d = ADJUST \<and> adjustSign d = Some SIGN_OUT then qty d * (- 1)
      else 0)"

text \<open>\<open>getSignedQty\<close> is the method of the model.\<close>

definition getSignedQty :: "inventoryTransaction \<Rightarrow> rat" where
  "getSignedQty d =
     (if txType d = IN then qty d
      else if txType d = OUT then - qty d
      else if adjustSign d = Some SIGN_IN then qty d else - qty d)"

subsection \<open>Stock projection\<close>

text \<open>JavaScript truthiness of an optional string: absent and empty are both falsy.\<close>

fun truthy :: "string option \<Rightarrow> bool" where
  "truthy None = False"
| "truthy (Some s) = (s \<noteq> [])"

text \<open>A value that a caller puts into the \<open>expiryDate\<close> entry of a \<open>$match\<close> stage. An
  aggregation pipeline is sent to the database as it is: Mongoose does not cast the values
  of its stages to the schema. The database compares by type and value, so a date matches
  the stored date of the same time, and the text of a request matches no stored date.\<close>

datatype filterValue = DateValue int | RawValue jsonDate

fun matchesDate :: "filterValue \<Rightarrow> int option \<Rightarrow> bool" where
  "matchesDate (DateValue t) stored = (stored = Some t)"
| "matchesDate (RawValue v) stored = False"

text \<open>The \<open>$match\<close> stage of getCurrentStock: hospital and medication always, the batch label
  and the expiry date only when the caller passed a truthy one. The function is the same in
  both controllers. Every call of the inventory-transaction controller and of
  maybeTriggerReorder passes hospital and medication only; updateStock passes the lot and
  the expiryDate of its request body.\<close>

definition stockMatch ::
  "nat \<Rightarrow> nat \<Rightarrow> string option \<Rightarrow> filterValue option \<Rightarrow> inventoryTransaction \<Rightarrow> bool" where
  "stockMatch hospitalId medicationId lotF expiryF d =
     (hospital d = hospitalId \<and> medication d = medicationId
      \<and> (if truthy lotF then lot d = lotF else True)
      \<and> (case expiryF of None \<Rightarrow> True | Some v \<Rightarrow> matchesDate v (expiryDate d)))"

text \<open>getCurrentStock: one group over the matching documents; \<open>agg[0]?.stock || 0\<close> gives 0
  when nothing matched and when the sum is 0.\<close>

definition getCurrentStock ::
  "inventoryTransaction list \<Rightarrow> nat \<Rightarrow> nat \<Rightarrow> string option \<Rightarrow> filterValue option \<Rightarrow> rat" where
  "getCurrentStock coll hospitalId medicationId lotF expiryF =
     (case filter (stockMatch hospitalId medicationId lotF expiryF) coll of
        [] \<Rightarrow> 0
      | d # ds \<Rightarrow>
          (let stock = sum_list (map signedQtyExpr (d # ds))
           in if stock = 0 then 0 else stock))"

subsection \<open>Validation and saving of a movement\<close>

text \<open>The \<open>pre('validate')\<close> hook of the model, then the validators of the schema that can
  fail on a document built by a controller: the minimum of qty, the requirement of
  adjustSign for ADJUST, the minimum of unitCost.\<close>

definition preValidate :: "inventoryTransaction \<Rightarrow> error option" where
  "preValidate d =
     (if \<not> (qty d > 0) then Some (ValidationError QtyMustBePositive)
      else if txType d = ADJUST \<and> adjustSign d = None
        then Some (ValidationError AdjustSignRequired)
      else None)"

definition schemaValidate :: "inventoryTransaction \<Rightarrow> error option" where
  "schemaValidate d =
     (if qty d < 1 / 1000000 then Some (ValidationError QtyBelowMin)
      else if txType d = ADJUST \<and> adjustSign d = None
        then Some (ValidationError AdjustSignRequired)
      else (case unitCost d of
              None \<Rightarrow> None
            | Some c \<Rightarrow> if c < 0 then Some (ValidationError UnitCostNegative) else None))"

definition validate :: "inventoryTransaction \<Rightarrow> error option" where
  "validate d = (case preValidate d of Some e \<Rightarrow> Some e | None \<Rightarrow> schemaValidate d)"

text \<open>\<open>tx.save\<close>: the document is validated and, when valid, appended to the collection it is
  saved into. Nothing else in the repository writes to the collection.\<close>

definition save ::
  "inventoryTransaction \<Rightarrow> inventoryTransaction list \<Rightarrow> error + inventoryTransaction list" where
  "save d coll = (case validate d of Some e \<Rightarrow> Inl e | None \<Rightarrow> Inr (coll @ [d]))"

text \<open>The invariant of a committed movement.\<close>

definition movementOk :: "inventoryTransaction \<Rightarrow> bool" where
  "movementOk d = (qty d > 0 \<and> (if txType d = ADJUST then adjustSign d \<noteq> None else True))"

section \<open>Master data and the store\<close>

text \<open>Of a medication the operations read the name (for the title of a notification), the
  policy, the unit price and the preferred supplier. The schema trims the name when it is
  set, so a stored name has no white space at its ends.\<close>

record policySchema =
  reorderPoint :: rat
  safetyStock :: rat
  avgMonthlyConsumption :: rat

record medicationSchema =
  name :: string
  policy :: policySchema
  unitPrice :: rat
  preferredSupplier :: "nat option"

datatype poStatus = DRAFT | SENT | RECEIVED | CANCELLED

record purchaseOrderLine =
  lineMedication :: nat
  lineQty :: rat
  lineUnitPrice :: rat

record purchaseOrderSchema =
  poId :: nat
  poCode :: string
  poHospital :: nat
  poSupplier :: nat
  status :: poStatus
  lines :: "purchaseOrderLine list"
  receivedAt :: "int option"

datatype notificationType = LOW_STOCK | EXPIRY_SOON | ORDER_STATUS | SYSTEM_ALERT | NOTIFICATION_OTHER

record notificationSchema =
  notifHospital :: nat
  notifType :: notificationType
  notifMedication :: "nat option"
  notifPurchaseOrder :: "nat option"
  metaStockQty :: "rat option"
  metaReorderPoint :: "rat option"

text \<open>The collections of the database. The supplier collection is the list of the ids it
  holds. A new document gets the length of its collection as id, so ids follow insertion.\<close>

record db =
  transactions :: "inventoryTransaction list"
  medications :: "nat \<Rightarrow> medicationSchema option"
  suppliers :: "nat list"
  orders :: "purchaseOrderSchema list"
  notifications :: "notificationSchema list"

text \<open>\<open>session.withTransaction\<close>: the callback works on a copy of the committed state; what
  it saved with the session becomes the state when it returns, and the committed state stays
  as it was when it throws. The callback gets the committed state as its working state; a
  read that the source issues without the session is written as a read of the committed
  state, which does not hold what the open transaction has saved so far.\<close>

definition withTransaction :: "db \<Rightarrow> (db \<Rightarrow> error + db) \<Rightarrow> db \<times> error option" where
  "withTransaction s body = (case body s of Inl e \<Rightarrow> (s, Some e) | Inr w \<Rightarrow> (w, None))"

definition saveTx :: "inventoryTransaction \<Rightarrow> db \<Rightarrow> error + db" where
  "saveTx d w = (case save d (transactions w) of
                   Inl e \<Rightarrow> Inl e
                 | Inr c \<Rightarrow> Inr (w\<lparr>transactions := c\<rparr>))"

section \<open>Controllers/inventoryTransactionController.js\<close>

text \<open>assertSafetyStock: throws the 409 error when the medication has a positive safetyStock
  and the projected stock is below it.\<close>

definition assertSafetyStock :: "medicationSchema \<Rightarrow> rat \<Rightarrow> error option" where
  "assertSafetyStock med projected =
     (let safety = safetyStock (policy med)
      in if safety > 0 \<and> projected < safety
         then Some (SafetyStockViolation projected safety) else None)"

text \<open>The body of a request of createIn, createOut and createAdjust. \<open>None\<close> is an absent
  field.\<close>

record txBody =
  bodyHospital :: "nat option"
  bodyMedication :: "nat option"
  bodyQty :: "rat option"
  bodyAdjustSign :: "string option"
  bodyLot :: "string option"
  bodyExpiryDate :: "jsonDate option"
  bodyUnitCost :: "rat option"
  bodyReason :: "reason option"
  bodyRefType :: "refType option"
  bodyRefId :: "nat option"

record stockChange =
  before :: rat
  after :: rat
  projected :: rat

text \<open>\<open>lot || undefined\<close>\<close>

definition orUndefined :: "string option \<Rightarrow> string option" where
  "orUndefined l = (if truthy l then l else None)"

text \<open>The documents the three controllers build. \<open>unitCost ?? med.unitPrice ?? 0\<close> is the
  cost of the request when it has one and the unit price of the medication otherwise;
  reason and refType have the defaults of the destructuring; the expiry date of the request
  is cast by the constructor.\<close>

definition inTx ::
  "nat \<Rightarrow> int \<Rightarrow> nat \<Rightarrow> nat \<Rightarrow> rat \<Rightarrow> medicationSchema \<Rightarrow> txBody \<Rightarrow> inventoryTransaction" where
  "inTx i now hId mId q med body =
     \<lparr>oid = i, hospital = hId, medication = mId, txType = IN, qty = q, adjustSign = None,
      lot = orUndefined (bodyLot body), expiryDate = map_option castDate (bodyExpiryDate body),
      unitCost = (case bodyUnitCost body of Some c \<Rightarrow> Some c | None \<Rightarrow> Some (unitPrice med)),
      refType = (case bodyRefType body of Some r \<Rightarrow> r | None \<Rightarrow> OTHER),
      refId = bodyRefId body,
      reason = (case bodyReason body of Some r \<Rightarrow> r | None \<Rightarrow> PURCHASE_RECEIPT),
      createdAt = now\<rparr>"

definition outTx ::
  "nat \<Rightarrow> int \<Rightarrow> nat \<Rightarrow> nat \<Rightarrow> rat \<Rightarrow> txBody \<Rightarrow> inventoryTransaction" where
  "outTx i now hId mId q body =
     \<lparr>oid = i, hospital = hId, medication = mId, txType = OUT, qty = q, adjustSign = None,
      lot = orUndefined (bodyLot body), expiryDate = map_option castDate (bodyExpiryDate body),
      unitCost = None,
      refType = (case bodyRefType body of Some r \<Rightarrow> r | None \<Rightarrow> OTHER),
      refId = bodyRefId body,
      reason = (case bodyReason body of Some r \<Rightarrow> r | None \<Rightarrow> CONSUMPTION),
      createdAt = now\<rparr>"

definition adjustTx ::
  "nat \<Rightarrow> int \<Rightarrow> nat \<Rightarrow> nat \<Rightarrow> rat \<Rightarrow> sign \<Rightarrow> txBody \<Rightarrow> inventoryTransaction" where
  "adjustTx i now hId mId q sg body =
     \<lparr>oid = i, hospital = hId, medication = mId, txType = ADJUST, qty = q,
      adjustSign = Some sg,
      lot = orUndefined (bodyLot body), expiryDate = map_option castDate (bodyExpiryDate body),
      unitCost = None,
      refType = (case bodyRefType body of Some r \<Rightarrow> r | None \<Rightarrow> ADJ),
      refId = bodyRefId body,
      reason = (case bodyReason body of Some r \<Rightarrow> r
                | None \<Rightarrow> if sg = SIGN_IN then ADJUST_POS else ADJUST_NEG),
      createdAt = now\<rparr>"

definition createIn :: "db \<Rightarrow> int \<Rightarrow> txBody \<Rightarrow> db \<times> (error + stockChange)" where
  "createIn s now body =
     (case bodyHospital body of None \<Rightarrow> (s, Inl (BadRequest MissingFields)) | Some hId \<Rightarrow>
     (case bodyMedication body of None \<Rightarrow> (s, Inl (BadRequest MissingFields)) | Some mId \<Rightarrow>
     (case bodyQty body of None \<Rightarrow> (s, Inl (BadRequest MissingFields)) | Some q \<Rightarrow>
      if q = 0 then (s, Inl (BadRequest MissingFields)) else
     (case medications s mId of None \<Rightarrow> (s, Inl NotFound) | Some med \<Rightarrow>
        let current = getCurrentStock (transactions s) hId mId None None;
            proj = current + q
        in (case withTransaction s
                   (\<lambda>w. saveTx (inTx (length (transactions w)) now hId mId q med body) w) of
             (s', Some e) \<Rightarrow> (s', Inl e)
           | (s', None) \<Rightarrow>
               (s', Inr \<lparr>before = current,
                         after = getCurrentStock (transactions s') hId mId None None,
                         projected = proj\<rparr>))))))"

definition createOut :: "db \<Rightarrow> int \<Rightarrow> txBody \<Rightarrow> db \<times> (error + stockChange)" where
  "createOut s now body =
     (case bodyHospital body of None \<Rightarrow> (s, Inl (BadRequest MissingFields)) | Some hId \<Rightarrow>
     (case bodyMedication body of None \<Rightarrow> (s, Inl (BadRequest MissingFields)) | Some mId \<Rightarrow>
     (case bodyQty body of None \<Rightarrow> (s, Inl (BadRequest MissingFields)) | Some q \<Rightarrow>
      if q = 0 then (s, Inl (BadRequest MissingFields)) else
     (case medications s mId of None \<Rightarrow> (s, Inl NotFound) | Some med \<Rightarrow>
        let current = getCurrentStock (transactions s) hId mId None None;
            proj = current - q
        in (case assertSafetyStock med proj of Some e \<Rightarrow> (s, Inl e) | None \<Rightarrow>
           (case withTransaction s
                   (\<lambda>w. saveTx (outTx (length (transactions w)) now hId mId q body) w) of
             (s', Some e) \<Rightarrow> (s', Inl e)
           | (s', None) \<Rightarrow>
               (s', Inr \<lparr>before = current,
                         after = getCurrentStock (transactions s') hId mId None None,
                         projected = proj\<rparr>)))))))"

text \<open>createAdjust: the sign must be one of the strings IN and OUT; the safety rule is
  applied only to the sign OUT.\<close>

definition parseSign :: "string \<Rightarrow> sign option" where
  "parseSign a = (if a = ''IN'' then Some SIGN_IN else if a = ''OUT'' then Some SIGN_OUT else None)"

definition createAdjust :: "db \<Rightarrow> int \<Rightarrow> txBody \<Rightarrow> db \<times> (error + stockChange)" where
  "createAdjust s now body =
     (case bodyHospital body of None \<Rightarrow> (s, Inl (BadRequest MissingFields)) | Some hId \<Rightarrow>
     (case bodyMedication body of None \<Rightarrow> (s, Inl (BadRequest MissingFields)) | Some mId \<Rightarrow>
     (case bodyQty body of None \<Rightarrow> (s, Inl (BadRequest MissingFields)) | Some q \<Rightarrow>
     (case bodyAdjustSign body of None \<Rightarrow> (s, Inl (BadRequest MissingFields)) | Some a \<Rightarrow>
      if q = 0 \<or> a = [] then (s, Inl (BadRequest MissingFields)) else
     (case parseSign a of None \<Rightarrow> (s, Inl (BadRequest InvalidAdjustSign)) | Some sg \<Rightarrow>
     (case medications s mId of None \<Rightarrow> (s, Inl NotFound) | Some med \<Rightarrow>
        let current = getCurrentStock (transactions s) hId mId None None;
            proj = (if sg = SIGN_IN then current + q else current - q)
        in (case (if sg = SIGN_OUT then assertSafetyStock med proj else None) of
             Some e \<Rightarrow> (s, Inl e) | None \<Rightarrow>
           (case withTransaction s
                   (\<lambda>w. saveTx (adjustTx (length (transactions w)) now hId mId q sg body) w) of
             (s', Some e) \<Rightarrow> (s', Inl e)
           | (s', None) \<Rightarrow>
               (s', Inr \<lparr>before = current,
                         after = getCurrentStock (transactions s') hId mId None None,
                         projected = proj\<rparr>)))))))))"

text \<open>transferBetweenHospitals. The two hospitals are compared as the texts of the request
  (\<open>fromHospital === toHospital\<close>) and cast to ids afterwards, once the medication has been
  found. Both legs are saved in one transaction; the IN leg carries the id of the OUT leg
  as refId, the OUT leg is built without a refId.\<close>

record xferBody =
  fromHospital :: "string option"
  toHospital :: "string option"
  xferMedication :: "nat option"
  xferQty :: "rat option"
  xferLot :: "string option"
  xferExpiryDate :: "jsonDate option"

record xferResult =
  fromBefore :: rat
  fromAfter :: rat
  toAfter :: rat

definition xferOutTx ::
  "nat \<Rightarrow> int \<Rightarrow> nat \<Rightarrow> nat \<Rightarrow> rat \<Rightarrow> xferBody \<Rightarrow> inventoryTransaction" where
  "xferOutTx i now fromId mId q body =
     \<lparr>oid = i, hospital = fromId, medication = mId, txType = OUT, qty = q,
      adjustSign = None, lot = orUndefined (xferLot body),
      expiryDate = map_option castDate (xferExpiryDate body), unitCost = None,
      refType = XFER, refId = None, reason = TRANSFER_OUT, createdAt = now\<rparr>"

definition xferInTx ::
  "nat \<Rightarrow> int \<Rightarrow> nat \<Rightarrow> nat \<Rightarrow> rat \<Rightarrow> nat \<Rightarrow> xferBody \<Rightarrow> inventoryTransaction" where
  "xferInTx i now toId mId q outId body =
     \<lparr>oid = i, hospital = toId, medication = mId, txType = IN, qty = q,
      adjustSign = None, lot = orUndefined (xferLot body),
      expiryDate = map_option castDate (xferExpiryDate body), unitCost = None,
      refType = XFER, refId = Some outId, reason = TRANSFER_IN, createdAt = now\<rparr>"

text \<open>The callback of the transaction: the OUT leg is saved first, then the IN leg.\<close>

definition transferBody ::
  "int \<Rightarrow> nat \<Rightarrow> nat \<Rightarrow> nat \<Rightarrow> rat \<Rightarrow> xferBody \<Rightarrow> db \<Rightarrow> error + db" where
  "transferBody now fromId toId mId q body w =
     (let outDoc = xferOutTx (length (transactions w)) now fromId mId q body
      in (case saveTx outDoc w of
            Inl e \<Rightarrow> Inl e
          | Inr w1 \<Rightarrow>
              saveTx (xferInTx (length (transactions w1)) now toId mId q (oid outDoc) body) w1))"

definition transferBetweenHospitals ::
  "db \<Rightarrow> int \<Rightarrow> xferBody \<Rightarrow> db \<times> (error + xferResult)" where
  "transferBetweenHospitals s now body =
     (case fromHospital body of None \<Rightarrow> (s, Inl (BadRequest MissingFields)) | Some fromText \<Rightarrow>
     (case toHospital body of None \<Rightarrow> (s, Inl (BadRequest MissingFields)) | Some toText \<Rightarrow>
     (case xferMedication body of None \<Rightarrow> (s, Inl (BadRequest MissingFields)) | Some mId \<Rightarrow>
     (case xferQty body of None \<Rightarrow> (s, Inl (BadRequest MissingFields)) | Some q \<Rightarrow>
      if fromText = [] \<or> toText = [] \<or> q = 0 then (s, Inl (BadRequest MissingFields)) else
      if fromText = toText then (s, Inl (BadRequest SameHospital)) else
     (case medications s mId of None \<Rightarrow> (s, Inl NotFound) | Some med \<Rightarrow>
     (case newObjectId fromText of None \<Rightarrow> (s, Inl InvalidObjectId) | Some fromId \<Rightarrow>
     (case newObjectId toText of None \<Rightarrow> (s, Inl InvalidObjectId) | Some toId \<Rightarrow>
        let currentFrom = getCurrentStock (transactions s) fromId mId None None;
            projectedFrom = currentFrom - q
        in (case assertSafetyStock med projectedFrom of Some e \<Rightarrow> (s, Inl e) | None \<Rightarrow>
           (case withTransaction s (transferBody now fromId toId mId q body) of
             (s', Some e) \<Rightarrow> (s', Inl e)
           | (s', None) \<Rightarrow>
               (s', Inr \<lparr>fromBefore = currentFrom,
                         fromAfter = getCurrentStock (transactions s') fromId mId None None,
                         toAfter = getCurrentStock (transactions s') toId mId None None\<rparr>))))))))))"

text \<open>writeOffExpired. The first aggregation groups the movements of the hospital whose
  expiryDate is set and not after the cutoff by (medication, lot, expiryDate) and keeps the
  groups with a positive signed sum; the database does not fix the order of the groups,
  here they are listed in the order of their first movement. The loop runs inside one
  transaction: Medication.findById and tx.save use the
  session, getCurrentStock does not, so the total it returns is the committed one. An
  error thrown by assertSafetyStock or by save leaves the callback, and the transaction is
  aborted.\<close>

record writeOffBody =
  woHospital :: "nat option"
  cutoffDate :: "int option"
  woMedication :: "nat option"

record lotGroup =
  groupMedication :: nat
  groupLot :: "string option"
  groupExpiryDate :: "int option"
  stock :: rat

definition expiredMatch :: "nat \<Rightarrow> int \<Rightarrow> nat option \<Rightarrow> inventoryTransaction \<Rightarrow> bool" where
  "expiredMatch hId cutoff medF d =
     (hospital d = hId
      \<and> (case expiryDate d of None \<Rightarrow> False | Some e \<Rightarrow> e \<le> cutoff)
      \<and> (case medF of None \<Rightarrow> True | Some m \<Rightarrow> medication d = m))"

definition lotKey :: "inventoryTransaction \<Rightarrow> nat \<times> string option \<times> int option" where
  "lotKey d = (medication d, lot d, expiryDate d)"

definition expiredLots ::
  "inventoryTransaction list \<Rightarrow> nat \<Rightarrow> int \<Rightarrow> nat option \<Rightarrow> lotGroup list" where
  "expiredLots coll hId cutoff medF =
     (let ms = filter (expiredMatch hId cutoff medF) coll;
          groups = map (\<lambda>k. \<lparr>groupMedication = fst k, groupLot = fst (snd k),
                             groupExpiryDate = snd (snd k),
                             stock = sum_list (map signedQtyExpr
                                        (filter (\<lambda>d. lotKey d = k) ms))\<rparr>)
                       (remdups (map lotKey ms))
      in filter (\<lambda>g. stock g > 0) groups)"

definition writeOffTx :: "nat \<Rightarrow> int \<Rightarrow> nat \<Rightarrow> lotGroup \<Rightarrow> inventoryTransaction" where
  "writeOffTx i now hId l =
     \<lparr>oid = i, hospital = hId, medication = groupMedication l, txType = OUT, qty = stock l,
      adjustSign = None, lot = orUndefined (groupLot l), expiryDate = groupExpiryDate l,
      unitCost = None, refType = OTHER, refId = None, reason = WRITE_OFF,
      createdAt = now\<rparr>"

fun writeOffLoop :: "db \<Rightarrow> int \<Rightarrow> nat \<Rightarrow> lotGroup list \<Rightarrow> db \<Rightarrow> error + db" where
  "writeOffLoop s now hId [] w = Inr w"
| "writeOffLoop s now hId (l # ls) w =
     (case medications w (groupMedication l) of
        None \<Rightarrow> writeOffLoop s now hId ls w
      | Some medDoc \<Rightarrow>
          let totalCurrent = getCurrentStock (transactions s) hId (groupMedication l) None None;
              proj = totalCurrent - stock l
          in (case assertSafetyStock medDoc proj of Some e \<Rightarrow> Inl e | None \<Rightarrow>
             (case saveTx (writeOffTx (length (transactions w)) now hId l) w of
               Inl e \<Rightarrow> Inl e
             | Inr w1 \<Rightarrow> writeOffLoop s now hId ls w1)))"

definition writeOffExpired ::
  "db \<Rightarrow> int \<Rightarrow> writeOffBody \<Rightarrow> db \<times> (error + lotGroup list)" where
  "writeOffExpired s now body =
     (case woHospital body of None \<Rightarrow> (s, Inl (BadRequest MissingFields)) | Some hId \<Rightarrow>
     (case cutoffDate body of None \<Rightarrow> (s, Inl (BadRequest MissingFields)) | Some cutoff \<Rightarrow>
        let lots = expiredLots (transactions s) hId cutoff (woMedication body)
        in if lots = [] then (s, Inr [])
           else (case withTransaction s (writeOffLoop s now hId lots) of
                  (s', Some e) \<Rightarrow> (s', Inl e)
                | (s', None) \<Rightarrow> (s', Inr lots))))"

text \<open>kardexByMedication: the movements of the hospital and medication inside the optional
  date range, sorted by (createdAt, _id), each with its signed quantity and the sum of the
  signed quantities of the window from the first document to the current one.\<close>

record kardexRow =
  doc :: inventoryTransaction
  signedQty :: rat
  runningBalance :: rat

definition kardexMatch ::
  "nat \<Rightarrow> nat \<Rightarrow> int option \<Rightarrow> int option \<Rightarrow> inventoryTransaction \<Rightarrow> bool" where
  "kardexMatch hId mId dateFrom dateTo d =
     (hospital d = hId \<and> medication d = mId
      \<and> (case dateFrom of None \<Rightarrow> True | Some f \<Rightarrow> f \<le> createdAt d)
      \<and> (case dateTo of None \<Rightarrow> True | Some t \<Rightarrow> createdAt d \<le> t))"

definition sortKey :: "inventoryTransaction \<Rightarrow> int \<times> nat" where
  "sortKey d = (createdAt d, oid d)"

fun setWindowFields :: "rat \<Rightarrow> inventoryTransaction list \<Rightarrow> kardexRow list" where
  "setWindowFields acc [] = []"
| "setWindowFields acc (d # ds) =
     \<lparr>doc = d, signedQty = signedQtyExpr d, runningBalance = acc + signedQtyExpr d\<rparr>
       # setWindowFields (acc + signedQtyExpr d) ds"

definition kardexByMedication ::
  "inventoryTransaction list \<Rightarrow> nat option \<Rightarrow> nat option \<Rightarrow> int option \<Rightarrow> int option
     \<Rightarrow> error + kardexRow list" where
  "kardexByMedication coll hospitalQ medicationQ dateFrom dateTo =
     (case hospitalQ of None \<Rightarrow> Inl (BadRequest MissingFields) | Some hId \<Rightarrow>
     (case medicationQ of None \<Rightarrow> Inl (BadRequest MissingFields) | Some mId \<Rightarrow>
        Inr (setWindowFields 0
               (sort_key sortKey (filter (kardexMatch hId mId dateFrom dateTo) coll)))))"

section \<open>Controllers/medicationController.js\<close>

text \<open>Notification.create, with the validator of the Notification schema that a document
  built here can fail: the title has at most 200 characters. (The messages built here hold
  two numbers and at most one name and stay below the 1000 characters of the schema; the
  title is not read back and is not stored in the model.)\<close>

definition createNotification :: "string \<Rightarrow> notificationSchema \<Rightarrow> db \<Rightarrow> error + db" where
  "createNotification title n s =
     (if length title > 200 then Inl (ValidationError TitleTooLong)
      else Inr (s\<lparr>notifications := notifications s @ [n]\<rparr>))"

text \<open>PurchaseOrder.create, with the validators of Models/PurchaseOrder.js that a document
  built here can fail (at least one line, the minimum of a line's qty, a line's unitPrice
  not negative) and the unique index on the code of an order.\<close>

definition validateLine :: "purchaseOrderLine \<Rightarrow> error option" where
  "validateLine l =
     (if lineQty l < 1 / 10000 then Some (ValidationError LineQtyBelowMin)
      else if lineUnitPrice l < 0 then Some (ValidationError LinePriceNegative)
      else None)"

fun validateLines :: "purchaseOrderLine list \<Rightarrow> error option" where
  "validateLines [] = None"
| "validateLines (l # ls) =
     (case validateLine l of Some e \<Rightarrow> Some e | None \<Rightarrow> validateLines ls)"

definition createOrder :: "purchaseOrderSchema \<Rightarrow> db \<Rightarrow> error + db" where
  "createOrder po s =
     (if lines po = [] then Inl (ValidationError NoLines)
      else (case validateLines (lines po) of
              Some e \<Rightarrow> Inl e
            | None \<Rightarrow>
                if poCode po \<in> set (map poCode (orders s)) then Inl DuplicateKey
                else Inr (s\<lparr>orders := orders s @ [po]\<rparr>)))"

record reorderResult =
  created :: bool
  notificationId :: "nat option"
  purchaseOrderId :: "nat option"

text \<open>maybeTriggerReorder. \<open>code\<close> is the order code the function generates from the clock
  and \<open>Math.random\<close>: \<open>PO-\<close>, the eight digits of the day, \<open>-\<close> and a number from 1000 to
  9999, 16 characters in all. Nothing here runs in a transaction: the LOW_STOCK
  notification is stored before the order is attempted, and the order before its
  ORDER_STATUS notification.\<close>

definition maybeTriggerReorder ::
  "db \<Rightarrow> nat \<Rightarrow> nat \<Rightarrow> medicationSchema \<Rightarrow> string \<Rightarrow> db \<times> (error + reorderResult)" where
  "maybeTriggerReorder s hospitalId medId med code =
     (let stk = getCurrentStock (transactions s) hospitalId medId None None;
          rp = reorderPoint (policy med);
          avgMonthly = avgMonthlyConsumption (policy med)
      in if stk > rp
         then (s, Inr \<lparr>created = False, notificationId = None, purchaseOrderId = None\<rparr>)
         else
           (case createNotification (''Stock bajo: '' @ name med)
                   \<lparr>notifHospital = hospitalId, notifType = LOW_STOCK,
                    notifMedication = Some medId, notifPurchaseOrder = None,
                    metaStockQty = Some stk, metaReorderPoint = Some rp\<rparr> s of
              Inl e \<Rightarrow> (s, Inl e)
            | Inr s1 \<Rightarrow>
               (let notifId = length (notifications s);
                    noOrder = (s1, Inr \<lparr>created = True, notificationId = Some notifId,
                                        purchaseOrderId = None\<rparr>)
                in (case preferredSupplier med of None \<Rightarrow> noOrder | Some supId \<Rightarrow>
                   if supId \<in> set (suppliers s1) then
                     (let safety = safetyStock (policy med);
                          target = safety + avgMonthly;
                          toBuy = max 0 (target - stk)
                      in if toBuy > 0 then
                           (case createOrder
                                   \<lparr>poId = length (orders s1), poCode = code,
                                    poHospital = hospitalId,
                                    poSupplier = supId, status = DRAFT,
                                    lines = [\<lparr>lineMedication = medId, lineQty = toBuy,
                                              lineUnitPrice = unitPrice med\<rparr>],
                                    receivedAt = None\<rparr> s1 of
                              Inl e \<Rightarrow> (s1, Inl e)
                            | Inr s2 \<Rightarrow>
                               (case createNotification (''PO sugerida: '' @ code)
                                       \<lparr>notifHospital = hospitalId, notifType = ORDER_STATUS,
                                        notifMedication = None,
                                        notifPurchaseOrder = Some (length (orders s1)),
                                        metaStockQty = None, metaReorderPoint = None\<rparr> s2 of
                                  Inl e \<Rightarrow> (s2, Inl e)
                                | Inr s3 \<Rightarrow>
                                    (s3, Inr \<lparr>created = True, notificationId = Some notifId,
                                              purchaseOrderId = Some (length (orders s1))\<rparr>)))
                         else noOrder)
                   else noOrder))))"

text \<open>updateStock. The current stock is projected with the lot and the expiryDate of the
  request, handed to getCurrentStock as they were received; the stock reported as \<open>after\<close>
  is projected without them. The safety rule is applied to every non-zero delta. \<open>code\<close> is
  the order code that maybeTriggerReorder generates.\<close>

record stockBody =
  sbHospitalId :: "nat option"
  sbAction :: "string option"
  sbQty :: "rat option"
  sbLot :: "string option"
  sbExpiryDate :: "jsonDate option"
  sbUnitCost :: "rat option"

record stockUpdate =
  upBefore :: rat
  upAfter :: rat
  triggerReorder :: bool
  upNotificationId :: "nat option"
  upPurchaseOrderId :: "nat option"

datatype stockReply = NoChange rat | StockUpdated stockUpdate

definition actionDelta :: "string option \<Rightarrow> rat \<Rightarrow> rat \<Rightarrow> rat option" where
  "actionDelta act q current =
     (let a = (case act of None \<Rightarrow> ''increment'' | Some a \<Rightarrow> a)
      in if a = ''increment'' then Some q
         else if a = ''decrement'' then Some (- q)
         else if a = ''set'' then Some (q - current)
         else None)"

definition stockTx ::
  "nat \<Rightarrow> int \<Rightarrow> nat \<Rightarrow> nat \<Rightarrow> rat \<Rightarrow> medicationSchema \<Rightarrow> stockBody \<Rightarrow> inventoryTransaction" where
  "stockTx i now hId mId delta med body =
     \<lparr>oid = i, hospital = hId, medication = mId, txType = ADJUST, qty = \<bar>delta\<bar>,
      adjustSign = Some (if delta > 0 then SIGN_IN else SIGN_OUT),
      lot = orUndefined (sbLot body), expiryDate = map_option castDate (sbExpiryDate body),
      unitCost = (case sbUnitCost body of Some c \<Rightarrow> Some c | None \<Rightarrow> Some (unitPrice med)),
      refType = ADJ, refId = None,
      reason = (if delta > 0 then ADJUST_POS else ADJUST_NEG),
      createdAt = now\<rparr>"

definition updateStock ::
  "db \<Rightarrow> int \<Rightarrow> nat \<Rightarrow> string \<Rightarrow> stockBody \<Rightarrow> db \<times> (error + stockReply)" where
  "updateStock s now mId code body =
     (case sbHospitalId body of None \<Rightarrow> (s, Inl (BadRequest MissingFields)) | Some hId \<Rightarrow>
     (case sbQty body of None \<Rightarrow> (s, Inl (BadRequest MissingFields)) | Some q \<Rightarrow>
     (case medications s mId of None \<Rightarrow> (s, Inl NotFound) | Some med \<Rightarrow>
        let current = getCurrentStock (transactions s) hId mId (sbLot body)
                        (map_option RawValue (sbExpiryDate body))
        in (case actionDelta (sbAction body) q current of
             None \<Rightarrow> (s, Inl (BadRequest InvalidAction)) | Some delta \<Rightarrow>
           if delta = 0 then (s, Inr (NoChange current)) else
           let proj = current + delta;
               safety = safetyStock (policy med)
           in if safety > 0 \<and> proj < safety
              then (s, Inl (SafetyStockViolation proj safety))
              else
                (case withTransaction s
                        (\<lambda>w. saveTx (stockTx (length (transactions w)) now hId mId delta med body)
                               w) of
                  (s', Some e) \<Rightarrow> (s', Inl e)
                | (s', None) \<Rightarrow>
                    let aft = getCurrentStock (transactions s') hId mId None None
                    in (case maybeTriggerReorder s' hId mId med code of
                         (s'', Inl e) \<Rightarrow> (s'', Inl e)
                       | (s'', Inr trigger) \<Rightarrow>
                           (s'', Inr (StockUpdated
                              \<lparr>upBefore = current, upAfter = aft,
                               triggerReorder = created trigger,
                               upNotificationId = notificationId trigger,
                               upPurchaseOrderId = purchaseOrderId trigger\<rparr>))))))))"

section \<open>Controllers/purchaseOrderController.js\<close>

text \<open>getReceivedQtyByMedication: the IN movements whose reference is the order, grouped by
  medication; the result is the Map from a medication to the sum of its group.\<close>

definition getReceivedQtyByMedication ::
  "inventoryTransaction list \<Rightarrow> nat \<Rightarrow> nat \<Rightarrow> rat option" where
  "getReceivedQtyByMedication coll po =
     (let rows = filter (\<lambda>d. refType d = PO \<and> refId d = Some po \<and> txType d = IN) coll
      in (\<lambda>m. if list_ex (\<lambda>d. medication d = m) rows
               then Some (sum_list (map qty (filter (\<lambda>d. medication d = m) rows)))
               else None))"

text \<open>\<open>receivedMap.get(k) || 0\<close>\<close>

definition orZero :: "rat option \<Rightarrow> rat" where
  "orZero v = (case v of None \<Rightarrow> 0 | Some r \<Rightarrow> r)"

record receiveItem =
  itemMedication :: "nat option"
  itemQty :: "rat option"
  itemLot :: "string option"
  itemExpiryDate :: "jsonDate option"
  itemUnitCost :: "rat option"

record summaryLine =
  sumMedication :: nat
  ordered :: rat
  received :: rat
  pending :: rat

record receiveResult =
  freshPO :: purchaseOrderSchema
  receivedSummary :: "summaryLine list"

definition findById :: "purchaseOrderSchema list \<Rightarrow> nat \<Rightarrow> purchaseOrderSchema option" where
  "findById coll i = find (\<lambda>p. poId p = i) coll"

definition savePO :: "purchaseOrderSchema \<Rightarrow> db \<Rightarrow> db" where
  "savePO p w = w\<lparr>orders := map (\<lambda>x. if poId x = poId p then p else x) (orders w)\<rparr>"

text \<open>The loop that checks the submitted items before anything is written.\<close>

fun validateItems :: "nat list \<Rightarrow> receiveItem list \<Rightarrow> error option" where
  "validateItems lineMedIds [] = None"
| "validateItems lineMedIds (it # its) =
     (case itemMedication it of None \<Rightarrow> Some (BadRequest InvalidItem) | Some m \<Rightarrow>
     (case itemQty it of None \<Rightarrow> Some (BadRequest InvalidItem) | Some q \<Rightarrow>
      if q \<le> 0 then Some (BadRequest InvalidItem)
      else if m \<notin> set lineMedIds then Some (BadRequest ItemNotInPO)
      else validateItems lineMedIds its))"

text \<open>The loop of the transaction: one IN movement per item, saved with the session.\<close>

definition receiptTx ::
  "nat \<Rightarrow> int \<Rightarrow> purchaseOrderSchema \<Rightarrow> nat \<Rightarrow> rat \<Rightarrow> medicationSchema \<Rightarrow> receiveItem
     \<Rightarrow> inventoryTransaction" where
  "receiptTx i now p m q med it =
     \<lparr>oid = i, hospital = poHospital p, medication = m, txType = IN, qty = q,
      adjustSign = None, lot = orUndefined (itemLot it),
      expiryDate = map_option castDate (itemExpiryDate it),
      unitCost = (case itemUnitCost it of Some c \<Rightarrow> Some c | None \<Rightarrow> Some (unitPrice med)),
      refType = PO, refId = Some (poId p), reason = PURCHASE_RECEIPT, createdAt = now\<rparr>"

fun receiveLoop :: "int \<Rightarrow> purchaseOrderSchema \<Rightarrow> receiveItem list \<Rightarrow> db \<Rightarrow> error + db" where
  "receiveLoop now p [] w = Inr w"
| "receiveLoop now p (it # its) w =
     (case itemMedication it of None \<Rightarrow> Inl MedicationNotFoundThrown | Some m \<Rightarrow>
     (case medications w m of None \<Rightarrow> Inl MedicationNotFoundThrown | Some med \<Rightarrow>
     (case itemQty it of None \<Rightarrow> Inl (ValidationError QtyMustBePositive) | Some q \<Rightarrow>
     (case saveTx (receiptTx (length (transactions w)) now p m q med it) w of
        Inl e \<Rightarrow> Inl e
      | Inr w1 \<Rightarrow> receiveLoop now p its w1))))"

text \<open>The callback of the transaction of receivePO. After the loop the received totals are
  recomputed by getReceivedQtyByMedication, which aggregates without the session (unlike
  Medication.findById and the two saves of the same callback): it reads the committed
  collection \<open>transactions s\<close>, not the working one.\<close>

definition receiveBody ::
  "db \<Rightarrow> int \<Rightarrow> purchaseOrderSchema \<Rightarrow> receiveItem list \<Rightarrow> db \<Rightarrow> error + db" where
  "receiveBody s now p items w0 =
     (case receiveLoop now p items w0 of Inl e \<Rightarrow> Inl e | Inr w \<Rightarrow>
        let receivedMap = getReceivedQtyByMedication (transactions s) (poId p);
            allReceived = list_all (\<lambda>l. orZero (receivedMap (lineMedication l)) \<ge> lineQty l)
                            (lines p)
        in if allReceived then Inr (savePO (p\<lparr>status := RECEIVED, receivedAt := Some now\<rparr>) w)
           else if status p = DRAFT then Inr (savePO (p\<lparr>status := SENT\<rparr>) w)
           else Inr w)"

definition receivedTotals :: "inventoryTransaction list \<Rightarrow> purchaseOrderSchema \<Rightarrow> summaryLine list" where
  "receivedTotals coll p =
     (let receivedMap = getReceivedQtyByMedication coll (poId p)
      in map (\<lambda>l. \<lparr>sumMedication = lineMedication l, ordered = lineQty l,
                    received = orZero (receivedMap (lineMedication l)),
                    pending = max 0 (lineQty l - orZero (receivedMap (lineMedication l)))\<rparr>)
             (lines p))"

definition receivePO ::
  "db \<Rightarrow> int \<Rightarrow> nat \<Rightarrow> receiveItem list \<Rightarrow> db \<times> (error + receiveResult)" where
  "receivePO s now i items =
     (if items = [] then (s, Inl (BadRequest EmptyItems)) else
     (case findById (orders s) i of None \<Rightarrow> (s, Inl NotFound) | Some p \<Rightarrow>
      if status p \<noteq> SENT \<and> status p \<noteq> RECEIVED \<and> status p \<noteq> DRAFT
      then (s, Inl InvalidState) else
     (case validateItems (map lineMedication (lines p)) items of
        Some e \<Rightarrow> (s, Inl e) | None \<Rightarrow>
     (case withTransaction s (receiveBody s now p items) of
        (s', Some e) \<Rightarrow> (s', Inl e)
      | (s', None) \<Rightarrow>
          (case findById (orders s') (poId p) of None \<Rightarrow> (s', Inl NotFound) | Some fresh \<Rightarrow>
             (s'\<lparr>notifications := notifications s' @
                    [\<lparr>notifHospital = poHospital fresh, notifType = ORDER_STATUS,
                      notifMedication = None, notifPurchaseOrder = Some (poId fresh),
                      metaStockQty = None, metaReorderPoint = None\<rparr>]\<rparr>,
              Inr \<lparr>freshPO = fresh,
                   receivedSummary = receivedTotals (transactions s') fresh\<rparr>))))))"

section \<open>Reachable states\<close>

text \<open>The states the controllers can produce from an empty ledger. \<open>otherWrite\<close> stands for
  the writes of the repository that leave the InventoryTransaction collection as it is
  (master data, purchase orders, notifications).\<close>

inductive reachable :: "db \<Rightarrow> bool" where
  initial: "transactions s = [] \<Longrightarrow> reachable s"
| otherWrite: "reachable s \<Longrightarrow> transactions s' = transactions s \<Longrightarrow> reachable s'"
| byCreateIn: "reachable s \<Longrightarrow> reachable (fst (createIn s now body))"
| byCreateOut: "reachable s \<Longrightarrow> reachable (fst (createOut s now body))"
| byCreateAdjust: "reachable s \<Longrightarrow> reachable (fst (createAdjust s now body))"
| byTransfer: "reachable s \<Longrightarrow> reachable (fst (transferBetweenHospitals s now xbody))"
| byWriteOff: "reachable s \<Longrightarrow> reachable (fst (writeOffExpired s now wbody))"
| byUpdateStock: "reachable s \<Longrightarrow> reachable (fst (updateStock s now m code sbody))"
| byReceivePO: "reachable s \<Longrightarrow> reachable (fst (receivePO s now i items))"

section \<open>Notions of the specification\<close>

text \<open>The time bound of a replay, and the final running balance of a replayed sequence
  (0 for the empty sequence). The stock projection of a scope and time bound is
  getCurrentStock on the movements inside the time bound.\<close>

definition withinDates :: "int option \<Rightarrow> int option \<Rightarrow> inventoryTransaction \<Rightarrow> bool" where
  "withinDates dateFrom dateTo d =
     ((case dateFrom of None \<Rightarrow> True | Some f \<Rightarrow> f \<le> createdAt d)
      \<and> (case dateTo of None \<Rightarrow> True | Some t \<Rightarrow> createdAt d \<le> t))"

definition finalBalance :: "kardexRow list \<Rightarrow> rat" where
  "finalBalance rows = (case rows of [] \<Rightarrow> 0 | r # rs \<Rightarrow> runningBalance (last (r # rs)))"


definition newOrders :: "db \<Rightarrow> db \<Rightarrow> purchaseOrderSchema list" where
  "newOrders s s' = drop (length (orders s)) (orders s')"


definition proposedQtys :: "db \<Rightarrow> db \<Rightarrow> rat list list" where
  "proposedQtys s s' = map (\<lambda>p. map lineQty (lines p)) (newOrders s s')"


text \<open>For the batch write-off: a qualifying scope resolves when its medication exists;
  \<open>scopeOf\<close> and \<open>scopeOfGroup\<close> give the item, batch, expiry and quantity of a movement
  and of a scope.\<close>

definition resolves :: "db \<Rightarrow> lotGroup \<Rightarrow> bool" where
  "resolves s l = (medications s (groupMedication l) \<noteq> None)"

definition scopeOf :: "inventoryTransaction \<Rightarrow> nat \<times> string option \<times> int option \<times> rat" where
  "scopeOf d = (medication d, lot d, expiryDate d, qty d)"

definition scopeOfGroup :: "lotGroup \<Rightarrow> nat \<times> string option \<times> int option \<times> rat" where
  "scopeOfGroup l = (groupMedication l, orUndefined (groupLot l), groupExpiryDate l, stock l)"

section \<open>Example data\<close>

text \<open>A medication with reorder point 50, safety stock 10 and a monthly consumption of 30,
  and small ledgers of hospital 1, used to instantiate the theorems below. Hospital 1 is
  written \<open>000000000000000000000001\<close> in a request that carries the text of its id.\<close>

definition exMed :: medicationSchema where
  "exMed = \<lparr>name = ''Paracetamol'',
            policy = \<lparr>reorderPoint = 50, safetyStock = 10, avgMonthlyConsumption = 30\<rparr>,
            unitPrice = 2, preferredSupplier = Some 7\<rparr>"

definition exTx ::
  "nat \<Rightarrow> nat \<Rightarrow> txType \<Rightarrow> sign option \<Rightarrow> rat \<Rightarrow> string option \<Rightarrow> int option
     \<Rightarrow> inventoryTransaction" where
  "exTx i h t sg q l e =
     \<lparr>oid = i, hospital = h, medication = 1, txType = t, qty = q, adjustSign = sg, lot = l,
      expiryDate = e, unitCost = None, refType = OTHER, refId = None, reason = REASON_OTHER,
      createdAt = int i\<rparr>"

definition exLedger :: "inventoryTransaction list" where
  "exLedger = [exTx 0 1 IN None 60 None None, exTx 1 1 OUT None 20 None None,
               exTx 2 1 ADJUST (Some SIGN_IN) 5 None None,
               exTx 3 1 ADJUST (Some SIGN_OUT) 15 None None]"

definition exDb :: db where
  "exDb = \<lparr>transactions = [], medications = (\<lambda>i. if i = 1 then Some exMed else None),
           suppliers = [7], orders = [], notifications = []\<rparr>"

definition exBody :: "rat \<Rightarrow> txBody" where
  "exBody q = \<lparr>bodyHospital = Some 1, bodyMedication = Some 1, bodyQty = Some q,
               bodyAdjustSign = None, bodyLot = None, bodyExpiryDate = None,
               bodyUnitCost = None, bodyReason = None, bodyRefType = None, bodyRefId = None\<rparr>"

definition exStocked :: db where
  "exStocked = exDb\<lparr>transactions := [exTx 0 1 IN None 60 None None, exTx 1 1 OUT None 45 None None]\<rparr>"

definition exStockBody :: "string \<Rightarrow> rat \<Rightarrow> string option \<Rightarrow> stockBody" where
  "exStockBody act q l = \<lparr>sbHospitalId = Some 1, sbAction = Some act, sbQty = Some q,
     sbLot = l, sbExpiryDate = None, sbUnitCost = None\<rparr>"

definition exXfer :: "rat \<Rightarrow> xferBody" where
  "exXfer q = \<lparr>fromHospital = Some ''000000000000000000000001'',
               toHospital = Some ''000000000000000000000002'', xferMedication = Some 1,
               xferQty = Some q, xferLot = None, xferExpiryDate = None\<rparr>"

definition exLots :: db where
  "exLots = exDb\<lparr>transactions := [exTx 0 1 IN None 100 (Some ''A'') None,
                                  exTx 1 1 IN None 100 (Some ''B'') None]\<rparr>"

definition exExpired :: db where
  "exExpired = exDb\<lparr>transactions := [exTx 0 1 IN None 25 (Some ''A'') (Some 5),
                                     exTx 1 1 IN None 4 (Some ''B'') (Some 6),
                                     exTx 2 1 IN None 3 (Some ''C'') None]\<rparr>"

definition exWriteOff :: writeOffBody where
  "exWriteOff = \<lparr>woHospital = Some 1, cutoffDate = Some 10, woMedication = None\<rparr>"

definition exLotA :: lotGroup where
  "exLotA = \<lparr>groupMedication = 1, groupLot = Some ''A'', groupExpiryDate = Some 5, stock = 25\<rparr>"

definition exLotB :: lotGroup where
  "exLotB = \<lparr>groupMedication = 1, groupLot = Some ''B'', groupExpiryDate = Some 6, stock = 4\<rparr>"

definition exFresh :: db where
  "exFresh = exDb\<lparr>transactions := [exTx 0 1 IN None 4 (Some ''B'') (Some 6),
                                   exTx 1 1 IN None 30 (Some ''C'') None]\<rparr>"

definition exPO :: purchaseOrderSchema where
  "exPO = \<lparr>poId = 0, poCode = ''PO-20250101-1000'', poHospital = 1, poSupplier = 7,
           status = SENT,
           lines = [\<lparr>lineMedication = 1, lineQty = 10, lineUnitPrice = 2\<rparr>],
           receivedAt = None\<rparr>"

definition exOrdered :: db where
  "exOrdered = exDb\<lparr>orders := [exPO]\<rparr>"

definition exItem :: "nat \<Rightarrow> rat \<Rightarrow> receiveItem" where
  "exItem m q = \<lparr>itemMedication = Some m, itemQty = Some q, itemLot = None,
                 itemExpiryDate = None, itemUnitCost = None\<rparr>"


definition exDated :: db where
  "exDated = exDb\<lparr>transactions := [exTx 0 1 IN None 100 (Some ''A'') (Some 500),
                                    exTx 1 1 IN None 50 (Some ''B'') (Some 900)]\<rparr>"

definition exCode :: string where
  "exCode = ''PO-20250102-4242''"


definition exTwoLots :: db where
  "exTwoLots = exDb\<lparr>transactions := [exTx 0 1 IN None 15 (Some ''A'') (Some 5),
                                      exTx 1 1 IN None 15 (Some ''B'') (Some 6),
                                      exTx 2 1 IN None 5 (Some ''C'') None]\<rparr>"

definition exTen :: db where
  "exTen = exDb\<lparr>transactions := [exTx 0 10 IN None 60 None None]\<rparr>"


section \<open>Projection: properties\<close>

lemma getCurrentStock_sum:
  "getCurrentStock coll h m lotF expiryF =
     sum_list (map signedQtyExpr (filter (stockMatch h m lotF expiryF) coll))"
  by (simp add: getCurrentStock_def Let_def split: list.split)

lemma getCurrentStock_total:
  "getCurrentStock coll h m None None =
     sum_list (map signedQtyExpr (filter (\<lambda>d. hospital d = h \<and> medication d = m) coll))"
  by (induction coll) (simp_all add: getCurrentStock_sum stockMatch_def)

lemma getCurrentStock_mset:
  assumes "mset xs = mset ys"
  shows "getCurrentStock xs h m lotF expiryF = getCurrentStock ys h m lotF expiryF"
proof -
  let ?P = "stockMatch h m lotF expiryF"
  have img: "mset (map signedQtyExpr (filter ?P zs))
             = image_mset signedQtyExpr (filter_mset ?P (mset zs))" for zs
    by simp
  have "mset (map signedQtyExpr (filter ?P xs)) = mset (map signedQtyExpr (filter ?P ys))"
    unfolding img using assms by simp
  then have "sum_list (map signedQtyExpr (filter ?P xs))
           = sum_list (map signedQtyExpr (filter ?P ys))"
    by (metis sum_mset_sum_list)
  then show ?thesis
    by (simp only: getCurrentStock_sum)
qed

lemma getCurrentStock_append:
  "getCurrentStock (xs @ ys) h m lotF expiryF =
     getCurrentStock xs h m lotF expiryF + getCurrentStock ys h m lotF expiryF"
  by (simp add: getCurrentStock_sum)

text \<open>The text of a request matches no stored date, so a projection narrowed by it is 0; a
  date narrows the projection to the movements that carry it.\<close>

lemma getCurrentStock_raw:
  "getCurrentStock coll h m lotF (Some (RawValue v)) = 0"
  by (simp add: getCurrentStock_sum stockMatch_def)

lemma getCurrentStock_date:
  "getCurrentStock coll h m None (Some (DateValue t)) =
     sum_list (map signedQtyExpr
       (filter (\<lambda>d. hospital d = h \<and> medication d = m \<and> expiryDate d = Some t) coll))"
  by (induction coll) (simp_all add: getCurrentStock_sum stockMatch_def)

lemma getCurrentStock_lot:
  "l \<noteq> [] \<Longrightarrow>
   getCurrentStock coll h m (Some l) None =
     sum_list (map signedQtyExpr
       (filter (\<lambda>d. hospital d = h \<and> medication d = m \<and> lot d = Some l) coll))"
  by (induction coll) (simp_all add: getCurrentStock_sum stockMatch_def)

lemma getSignedQty_agrees: "movementOk d \<Longrightarrow> getSignedQty d = signedQtyExpr d"
  by (cases "txType d"; cases "adjustSign d")
    (auto simp: getSignedQty_def signedQtyExpr_def movementOk_def intro: sign.exhaust)

text \<open>The constructor accepts the 24 digits in either letter case.\<close>

lemma newObjectId_examples:
  "newObjectId ''000000000000000000000001'' = Some 1"
  "newObjectId ''000000000000000000000002'' = Some 2"
  "newObjectId ''00000000000000000000000a'' = Some 10"
  "newObjectId ''00000000000000000000000A'' = Some 10"
  "newObjectId ''1'' = None"
  by (simp_all add: newObjectId_def hexDigit_def)

section \<open>Validation and the invariant of the ledger\<close>

lemma validate_None_iff:
  "validate d = None \<longleftrightarrow>
     qty d \<ge> 1 / 1000000 \<and> \<not> (txType d = ADJUST \<and> adjustSign d = None)
     \<and> (case unitCost d of None \<Rightarrow> True | Some c \<Rightarrow> c \<ge> 0)"
  by (auto simp: validate_def preValidate_def schemaValidate_def split: option.splits)

lemma validate_Some: "validate d = Some e \<Longrightarrow> \<exists>f. e = ValidationError f"
  by (auto simp: validate_def preValidate_def schemaValidate_def split: option.splits if_splits)

lemma validate_movementOk: "validate d = None \<Longrightarrow> movementOk d"
  by (auto simp: validate_None_iff movementOk_def)

lemma validate_fails:
  "qty d \<le> 0 \<or> (txType d = ADJUST \<and> adjustSign d = None) \<Longrightarrow> \<exists>f. validate d = Some (ValidationError f)"
  by (auto simp: validate_def preValidate_def schemaValidate_def split: option.splits if_splits)

lemma saveTx_Inr:
  "saveTx d w = Inr w' \<longleftrightarrow> validate d = None \<and> w' = w\<lparr>transactions := transactions w @ [d]\<rparr>"
  by (auto simp: saveTx_def save_def split: option.splits)

lemma saveTx_Inl: "saveTx d w = Inl e \<longleftrightarrow> validate d = Some e"
  by (auto simp: saveTx_def save_def split: option.splits)

lemma saveTx_cases:
  "saveTx d w = (case validate d of Some e \<Rightarrow> Inl e | None \<Rightarrow> Inr (w\<lparr>transactions := transactions w @ [d]\<rparr>))"
  by (auto simp: saveTx_def save_def split: option.splits)

lemma createOut_ok:
  "list_all movementOk (transactions s) \<Longrightarrow> list_all movementOk (transactions (fst (createOut s now body)))"
  by (auto simp: createOut_def withTransaction_def saveTx_cases Let_def validate_movementOk
      split: option.splits)

lemma createIn_ok:
  "list_all movementOk (transactions s) \<Longrightarrow> list_all movementOk (transactions (fst (createIn s now body)))"
  by (auto simp: createIn_def withTransaction_def saveTx_cases Let_def validate_movementOk
      split: option.splits)

lemma createAdjust_ok:
  "list_all movementOk (transactions s) \<Longrightarrow> list_all movementOk (transactions (fst (createAdjust s now body)))"
  by (auto simp: createAdjust_def withTransaction_def saveTx_cases Let_def validate_movementOk
      split: option.splits)

lemma transfer_ok:
  "list_all movementOk (transactions s) \<Longrightarrow>
     list_all movementOk (transactions (fst (transferBetweenHospitals s now body)))"
  by (auto simp: transferBetweenHospitals_def transferBody_def withTransaction_def saveTx_cases
      Let_def validate_movementOk split: option.splits)


lemma writeOffLoop_ok:
  "writeOffLoop s now hId ls w = Inr w' \<Longrightarrow> list_all movementOk (transactions w)
     \<Longrightarrow> list_all movementOk (transactions w')"
proof (induction ls arbitrary: w)
  case Nil
  then show ?case by simp
next
  case (Cons l ls)
  then show ?case
    by (auto simp: saveTx_cases Let_def validate_movementOk split: option.splits)
qed

lemma writeOffExpired_ok:
  "list_all movementOk (transactions s) \<Longrightarrow>
     list_all movementOk (transactions (fst (writeOffExpired s now body)))"
  by (auto simp: writeOffExpired_def withTransaction_def Let_def
      split: option.splits sum.splits dest: writeOffLoop_ok)

lemma createOrder_transactions:
  "createOrder po s = Inr s' \<Longrightarrow> transactions s' = transactions s"
  by (auto simp: createOrder_def split: if_splits option.splits)

lemma createNotification_transactions:
  "createNotification t n s = Inr s' \<Longrightarrow> transactions s' = transactions s"
  by (auto simp: createNotification_def split: if_splits)

lemma maybeTriggerReorder_transactions:
  "transactions (fst (maybeTriggerReorder s h m med code)) = transactions s"
  by (auto simp: maybeTriggerReorder_def Let_def createNotification_def createOrder_def
      split: option.splits sum.splits if_splits)

lemma updateStock_ok:
  assumes "list_all movementOk (transactions s)"
  shows "list_all movementOk (transactions (fst (updateStock s now m code body)))"
proof -
  have fst_case: "fst (case p of (a, Inl e) \<Rightarrow> (a, Inl e) | (a, Inr t) \<Rightarrow> (a, Inr (g t))) = fst p"
    for p :: "db \<times> (error + reorderResult)" and g :: "reorderResult \<Rightarrow> stockReply"
    by (cases p) (auto split: sum.splits)
  show ?thesis
    using assms
    by (auto simp: updateStock_def withTransaction_def saveTx_cases Let_def validate_movementOk
        fst_case maybeTriggerReorder_transactions split: option.splits)
qed

lemma receiveLoop_ok:
  "receiveLoop now p its w = Inr w' \<Longrightarrow> list_all movementOk (transactions w)
     \<Longrightarrow> list_all movementOk (transactions w')"
proof (induction its arbitrary: w)
  case Nil
  then show ?case by simp
next
  case (Cons l ls)
  then show ?case
    by (auto simp: saveTx_cases Let_def validate_movementOk split: option.splits)
qed

lemma receivePO_ok:
  "list_all movementOk (transactions s) \<Longrightarrow>
     list_all movementOk (transactions (fst (receivePO s now i items)))"
  by (auto simp: receivePO_def receiveBody_def savePO_def withTransaction_def Let_def
      split: option.splits sum.splits if_splits dest: receiveLoop_ok)

lemma reachable_ok: "reachable s \<Longrightarrow> list_all movementOk (transactions s)"
proof (induction rule: reachable.induct)
  case (initial s)
  then show ?case by simp
next
  case (otherWrite s s')
  then show ?case by simp
qed (simp_all add: createIn_ok createOut_ok createAdjust_ok transfer_ok writeOffExpired_ok
    updateStock_ok receivePO_ok)

section \<open>Kardex: properties\<close>

lemma setWindowFields_doc: "map doc (setWindowFields acc ds) = ds"
  by (induction ds arbitrary: acc) auto

lemma setWindowFields_length: "length (setWindowFields acc ds) = length ds"
  by (induction ds arbitrary: acc) auto

lemma setWindowFields_nth:
  "i < length ds \<Longrightarrow>
     signedQty (setWindowFields acc ds ! i) = signedQtyExpr (ds ! i)
     \<and> runningBalance (setWindowFields acc ds ! i)
         = acc + sum_list (map signedQtyExpr (take (Suc i) ds))"
proof (induction ds arbitrary: acc i)
  case Nil
  then show ?case by simp
next
  case (Cons d ds)
  show ?case
  proof (cases i)
    case 0
    then show ?thesis by simp
  next
    case (Suc k)
    with Cons.prems have "k < length ds" by simp
    from Cons.IH [OF this, of "acc + signedQtyExpr d"] Suc show ?thesis
      by (simp add: add.assoc)
  qed
qed

lemma setWindowFields_final:
  "finalBalance (setWindowFields 0 ds) = sum_list (map signedQtyExpr ds)"
proof (cases ds rule: rev_cases)
  case Nil
  then show ?thesis by (simp add: finalBalance_def)
next
  case (snoc ys y)
  let ?rows = "setWindowFields 0 ds"
  have len: "length ?rows = length ds" by (rule setWindowFields_length)
  then have ne: "?rows \<noteq> []" using snoc by auto
  have "finalBalance ?rows = runningBalance (last ?rows)"
    using ne by (cases ?rows) (auto simp: finalBalance_def)
  also have "last ?rows = ?rows ! (length ds - 1)"
    using ne len by (simp add: last_conv_nth)
  also have "runningBalance (?rows ! (length ds - 1))
             = 0 + sum_list (map signedQtyExpr (take (Suc (length ds - 1)) ds))"
    using snoc setWindowFields_nth [of "length ds - 1" ds 0] by simp
  finally show ?thesis using snoc by simp
qed

lemma kardex_scope_filter:
  "filter (stockMatch h m None None) (filter (withinDates dateFrom dateTo) coll)
     = filter (kardexMatch h m dateFrom dateTo) coll"
  by (induction coll) (auto simp: stockMatch_def withinDates_def kardexMatch_def)

lemma sum_list_sort_key:
  "sum_list (map f (sort_key k xs)) = sum_list (map f xs)" for f :: "'a \<Rightarrow> rat"
proof -
  have "mset (map f (sort_key k xs)) = mset (map f xs)" by simp
  then show ?thesis by (metis sum_mset_sum_list)
qed

section \<open>Reorder evaluation: properties\<close>







lemma reorder_codes_mono:
  "set (map poCode (orders s))
     \<subseteq> set (map poCode (orders (fst (maybeTriggerReorder s h m med code))))"
  by (auto simp: maybeTriggerReorder_def Let_def createOrder_def createNotification_def
      split: option.splits sum.splits if_splits)

lemma reorder_code_used:
  "proposedQtys s (fst (maybeTriggerReorder s h m med code)) \<noteq> [] \<Longrightarrow>
     code \<in> set (map poCode (orders (fst (maybeTriggerReorder s h m med code))))"
  by (auto simp: maybeTriggerReorder_def Let_def createOrder_def createNotification_def
      proposedQtys_def newOrders_def split: option.splits sum.splits if_splits)


text \<open>The code of an order is unique: an evaluation that generates a code which an order
  already has stores the low-stock notification and then fails on the insert of the
  order.\<close>

lemma reorder_duplicate_code:
  "snd (maybeTriggerReorder (fst (maybeTriggerReorder exStocked 1 1 exMed exCode)) 1 1 exMed exCode)
     = Inl DuplicateKey
   \<and> map poCode (orders (fst (maybeTriggerReorder exStocked 1 1 exMed exCode))) = [exCode]
   \<and> length (notifications (fst (maybeTriggerReorder exStocked 1 1 exMed exCode))) = 2
   \<and> length (notifications (fst (maybeTriggerReorder
         (fst (maybeTriggerReorder exStocked 1 1 exMed exCode)) 1 1 exMed exCode))) = 3
   \<and> length (orders (fst (maybeTriggerReorder
         (fst (maybeTriggerReorder exStocked 1 1 exMed exCode)) 1 1 exMed exCode))) = 1"
proof -
  have stk: "getCurrentStock (transactions exStocked) (Suc 0) (Suc 0) None None = 15"
    by (simp add: exStocked_def exDb_def exTx_def getCurrentStock_def stockMatch_def
        signedQtyExpr_def)
  have ex: "suppliers exStocked = [7]" "orders exStocked = []" "notifications exStocked = []"
    by (simp_all add: exStocked_def exDb_def)
  define s1 where "s1 = fst (maybeTriggerReorder exStocked 1 1 exMed exCode)"
  have s1: "transactions s1 = transactions exStocked" "suppliers s1 = [7]"
    "map poCode (orders s1) = [exCode]" "length (orders s1) = 1"
    "length (notifications s1) = 2"
    unfolding s1_def
    by (simp_all add: maybeTriggerReorder_def Let_def stk ex exMed_def createNotification_def
        createOrder_def validateLine_def exCode_def)
  have r2: "snd (maybeTriggerReorder s1 1 1 exMed exCode) = Inl DuplicateKey"
    "length (notifications (fst (maybeTriggerReorder s1 1 1 exMed exCode))) = 3"
    "length (orders (fst (maybeTriggerReorder s1 1 1 exMed exCode))) = 1"
    by (simp_all add: maybeTriggerReorder_def Let_def s1 stk exMed_def createNotification_def
        createOrder_def validateLine_def)
  from s1 r2 show ?thesis unfolding s1_def by simp
qed

section \<open>The safety-stock rule: properties\<close>

lemma assertSafetyStock_Some:
  "assertSafetyStock med proj = Some e \<longleftrightarrow>
     e = SafetyStockViolation proj (safetyStock (policy med))
     \<and> safetyStock (policy med) > 0 \<and> proj < safetyStock (policy med)"
  by (auto simp: assertSafetyStock_def Let_def)

lemma assertSafetyStock_None:
  "assertSafetyStock med proj = None \<longleftrightarrow>
     \<not> (safetyStock (policy med) > 0 \<and> proj < safetyStock (policy med))"
  by (auto simp: assertSafetyStock_def Let_def)

lemma validate_not_safety: "validate d \<noteq> Some (SafetyStockViolation p f)"
  using validate_Some [of d "SafetyStockViolation p f"] by auto

lemma createOut_safety:
  assumes "bodyHospital body = Some h" "bodyMedication body = Some m" "bodyQty body = Some q"
    "q \<noteq> 0" "medications s m = Some med"
  shows "snd (createOut s now body) = Inl (SafetyStockViolation p f) \<longleftrightarrow>
           p = getCurrentStock (transactions s) h m None None - q
           \<and> f = safetyStock (policy med) \<and> f > 0 \<and> p < f"
  using assms
  by (auto simp: createOut_def Let_def withTransaction_def saveTx_cases assertSafetyStock_Some assertSafetyStock_None
      validate_not_safety split: option.splits)

lemma createOut_rejected: "snd (createOut s now body) = Inl e \<Longrightarrow> fst (createOut s now body) = s"
  by (auto simp: createOut_def Let_def withTransaction_def saveTx_cases split: option.splits)

lemma createIn_no_safety: "snd (createIn s now body) \<noteq> Inl (SafetyStockViolation p f)"
  by (auto simp: createIn_def Let_def withTransaction_def saveTx_cases validate_not_safety
      split: option.splits)

lemma createIn_rejected: "snd (createIn s now body) = Inl e \<Longrightarrow> fst (createIn s now body) = s"
  by (auto simp: createIn_def Let_def withTransaction_def saveTx_cases split: option.splits)

lemma createAdjust_safety:
  assumes "bodyHospital body = Some h" "bodyMedication body = Some m" "bodyQty body = Some q"
    "q \<noteq> 0" "medications s m = Some med" "bodyAdjustSign body = Some a"
  shows "snd (createAdjust s now body) = Inl (SafetyStockViolation p f) \<longleftrightarrow>
           a = ''OUT'' \<and> p = getCurrentStock (transactions s) h m None None - q
           \<and> f = safetyStock (policy med) \<and> f > 0 \<and> p < f"
  using assms
  by (auto simp: createAdjust_def Let_def withTransaction_def saveTx_cases assertSafetyStock_Some assertSafetyStock_None
      validate_not_safety parseSign_def split: option.splits if_splits)

lemma createAdjust_rejected:
  "snd (createAdjust s now body) = Inl e \<Longrightarrow> fst (createAdjust s now body) = s"
  by (auto simp: createAdjust_def Let_def withTransaction_def saveTx_cases split: option.splits)


lemma createAdjust_in_no_safety:
  "bodyAdjustSign body = Some ''IN'' \<Longrightarrow>
     snd (createAdjust s now body) \<noteq> Inl (SafetyStockViolation p f)"
  by (auto simp: createAdjust_def Let_def withTransaction_def saveTx_cases validate_not_safety
      parseSign_def split: option.splits)

lemma createOrder_not_safety: "createOrder po s \<noteq> Inl (SafetyStockViolation p f)"
proof -
  have "validateLines ls \<noteq> Some (SafetyStockViolation p f)" for ls
    by (induction ls) (auto simp: validateLine_def split: option.splits)
  then show ?thesis
    by (auto simp: createOrder_def split: option.splits)
qed

lemma maybeTriggerReorder_not_safety:
  "snd (maybeTriggerReorder s h m med code) \<noteq> Inl (SafetyStockViolation p f)"
  by (auto simp: maybeTriggerReorder_def Let_def createOrder_not_safety createNotification_def
      split: option.splits sum.splits)


text \<open>updateStock applies the rule to the stock it read plus the delta, whatever the sign of
  the delta.\<close>

lemma updateStock_safety:
  assumes "sbHospitalId body = Some h" "sbQty body = Some q" "medications s m = Some med"
    "actionDelta (sbAction body) q
       (getCurrentStock (transactions s) h m (sbLot body)
          (map_option RawValue (sbExpiryDate body))) = Some delta"
  shows "snd (updateStock s now m code body) = Inl (SafetyStockViolation p f) \<longleftrightarrow>
           delta \<noteq> 0
           \<and> p = getCurrentStock (transactions s) h m (sbLot body)
                   (map_option RawValue (sbExpiryDate body)) + delta
           \<and> f = safetyStock (policy med) \<and> f > 0 \<and> p < f"
proof -
  have r: "(case pr of (a, Inl e) \<Rightarrow> (a, Inl e) | (a, Inr t) \<Rightarrow> (a, Inr (g t)))
             = (a', Inl (SafetyStockViolation p f)) \<longleftrightarrow> pr = (a', Inl (SafetyStockViolation p f))"
    for pr :: "db \<times> (error + reorderResult)" and g :: "reorderResult \<Rightarrow> stockReply" and a'
    by (cases pr) (auto split: sum.splits)
  have nr: "maybeTriggerReorder s' h m med code \<noteq> (a', Inl (SafetyStockViolation p f))" for s' a'
    using maybeTriggerReorder_not_safety [of s' h m med code p f] by (metis snd_conv)
  show ?thesis
    using assms
    by (auto simp: updateStock_def Let_def withTransaction_def saveTx_cases validate_not_safety
        r nr snd_def split: option.splits prod.splits sum.splits)
qed

section \<open>Transfers: properties\<close>

lemma validate_xfer:
  "validate (xferOutTx i now a m q body) = None \<longleftrightarrow> q \<ge> 1 / 1000000"
  "validate (xferInTx j now b m q k body) = None \<longleftrightarrow> q \<ge> 1 / 1000000"
  by (auto simp: validate_None_iff xferOutTx_def xferInTx_def)

lemma transferBody_cases:
  "transferBody now a b m q body w =
     (if q \<ge> 1 / 1000000
      then Inr (w\<lparr>transactions := transactions w @
                  [xferOutTx (length (transactions w)) now a m q body,
                   xferInTx (Suc (length (transactions w))) now b m q
                     (length (transactions w)) body]\<rparr>)
      else Inl (the (validate (xferOutTx (length (transactions w)) now a m q body))))"
proof (cases "q \<ge> 1 / 1000000")
  case True
  then have v: "validate (xferOutTx i now a m q body) = None"
    "validate (xferInTx j now b m q k body) = None" for i j k
    by (simp_all only: validate_xfer)
  have "oid (xferOutTx i now a m q body) = i" for i
    by (simp add: xferOutTx_def)
  with True show ?thesis
    by (simp add: transferBody_def Let_def saveTx_cases v)
next
  case False
  then have "validate (xferOutTx (length (transactions w)) now a m q body) \<noteq> None"
    by (simp add: validate_xfer)
  then show ?thesis
    using False by (auto simp: transferBody_def Let_def saveTx_cases)
qed

text \<open>A request that passes the checks of the controller: both hospitals and the medication
  present, a non-zero qty, two different texts for the hospitals that are both ids, and an
  existing medication. The two ids may be equal.\<close>

lemma transfer_valid:
  assumes "fromHospital body = Some ta" "toHospital body = Some tb" "xferMedication body = Some m"
    "xferQty body = Some q" "q \<noteq> 0" "ta \<noteq> tb" "newObjectId ta = Some a"
    "newObjectId tb = Some b" "medications s m = Some med"
  shows "transferBetweenHospitals s now body =
     (let cur = getCurrentStock (transactions s) a m None None;
          s' = s\<lparr>transactions := transactions s @
                  [xferOutTx (length (transactions s)) now a m q body,
                   xferInTx (Suc (length (transactions s))) now b m q
                     (length (transactions s)) body]\<rparr>
      in if safetyStock (policy med) > 0 \<and> cur - q < safetyStock (policy med)
         then (s, Inl (SafetyStockViolation (cur - q) (safetyStock (policy med))))
         else if q \<ge> 1 / 1000000
         then (s', Inr \<lparr>fromBefore = cur,
                         fromAfter = getCurrentStock (transactions s') a m None None,
                         toAfter = getCurrentStock (transactions s') b m None None\<rparr>)
         else (s, Inl (the (validate (xferOutTx (length (transactions s)) now a m q body)))))"
proof -
  have ne: "ta \<noteq> []" "tb \<noteq> []"
    using assms(7,8) by (auto simp: newObjectId_def)
  show ?thesis
    using assms ne
    by (simp add: transferBetweenHospitals_def Let_def assertSafetyStock_def
        withTransaction_def transferBody_cases)
qed

lemma transfer_after:
  assumes "a \<noteq> b"
  shows "getCurrentStock (xs @ [xferOutTx i now a m q body, xferInTx j now b m q k body])
            a m None None = getCurrentStock xs a m None None - q"
    and "getCurrentStock (xs @ [xferOutTx i now a m q body, xferInTx j now b m q k body])
            b m None None = getCurrentStock xs b m None None + q"
  using assms
  by (simp_all add: getCurrentStock_sum stockMatch_def signedQtyExpr_def xferOutTx_def
      xferInTx_def)

lemma transfer_invalid:
  assumes "\<not> (\<exists>ta tb a b m q med. fromHospital body = Some ta \<and> toHospital body = Some tb
            \<and> xferMedication body = Some m \<and> xferQty body = Some q \<and> q \<noteq> 0 \<and> ta \<noteq> tb
            \<and> newObjectId ta = Some a \<and> newObjectId tb = Some b
            \<and> medications s m = Some med)"
  shows "fst (transferBetweenHospitals s now body) = s
         \<and> (\<exists>e. snd (transferBetweenHospitals s now body) = Inl e)"
  using assms
  by (auto simp: transferBetweenHospitals_def Let_def split: option.splits)

lemma transfer_same:
  "fromHospital body = toHospital body \<Longrightarrow>
     \<exists>b. transferBetweenHospitals s now body = (s, Inl (BadRequest b))"
  by (auto simp: transferBetweenHospitals_def Let_def split: option.splits)

text \<open>The comparison of the two hospitals is one of texts. Two spellings of one id, here
  the id 10 written with a small and with a capital letter, are different texts: the request
  is accepted and both legs are booked on the same hospital, whose stock stays as it was.\<close>

lemma transfer_two_spellings:
  "newObjectId ''00000000000000000000000a'' = newObjectId ''00000000000000000000000A''
   \<and> map hospital (transactions
        (fst (transferBetweenHospitals exTen 0
           ((exXfer 5)\<lparr>fromHospital := Some ''00000000000000000000000a'',
                       toHospital := Some ''00000000000000000000000A''\<rparr>))))
       = [10, 10, 10]
   \<and> map txType (transactions
        (fst (transferBetweenHospitals exTen 0
           ((exXfer 5)\<lparr>fromHospital := Some ''00000000000000000000000a'',
                       toHospital := Some ''00000000000000000000000A''\<rparr>))))
       = [IN, OUT, IN]
   \<and> snd (transferBetweenHospitals exTen 0
           ((exXfer 5)\<lparr>fromHospital := Some ''00000000000000000000000a'',
                       toHospital := Some ''00000000000000000000000A''\<rparr>))
       = Inr \<lparr>fromBefore = 60, fromAfter = 60, toAfter = 60\<rparr>"
proof -
  let ?b = "(exXfer 5)\<lparr>fromHospital := Some ''00000000000000000000000a'',
                       toHospital := Some ''00000000000000000000000A''\<rparr>"
  have b: "fromHospital ?b = Some ''00000000000000000000000a''"
    "toHospital ?b = Some ''00000000000000000000000A''"
    "xferMedication ?b = Some (Suc 0)" "xferQty ?b = Some 5"
    by (simp_all add: exXfer_def)
  have m: "medications exTen (Suc 0) = Some exMed" "safetyStock (policy exMed) = 10"
    "transactions exTen = [exTx 0 10 IN None 60 None None]"
    by (simp_all add: exTen_def exDb_def exMed_def)
  have t: "transferBetweenHospitals exTen 0 ?b =
      (exTen\<lparr>transactions := [exTx 0 10 IN None 60 None None,
                               xferOutTx 1 0 10 (Suc 0) 5 ?b, xferInTx 2 0 10 (Suc 0) 5 1 ?b]\<rparr>,
       Inr \<lparr>fromBefore = 60, fromAfter = 60, toAfter = 60\<rparr>)"
    using transfer_valid [OF b(1) b(2) b(3) b(4) _ _ newObjectId_examples(3)
        newObjectId_examples(4) m(1), of 0]
    by (simp add: Let_def m getCurrentStock_sum stockMatch_def signedQtyExpr_def exTx_def
        xferOutTx_def xferInTx_def)
  show ?thesis
    by (simp add: t newObjectId_examples exTx_def xferOutTx_def xferInTx_def)
qed


section \<open>Replies of the inventory-transaction controller: properties\<close>

text \<open>The stock that createOut and createAdjust check and report is the projection over the
  hospital and the medication; the lot and the expiry date of the request only go into the
  movement.\<close>

lemma stock_after_append:
  "getCurrentStock (xs @ [d]) h m None None
     = getCurrentStock xs h m None None
       + (if hospital d = h \<and> medication d = m then signedQtyExpr d else 0)"
  by (simp add: getCurrentStock_sum stockMatch_def)

lemma out_fields:
  "hospital (outTx i now h m q body) = h" "medication (outTx i now h m q body) = m"
  "signedQtyExpr (outTx i now h m q body) = - q"
  "hospital (adjustTx i now h m q sg body) = h" "medication (adjustTx i now h m q sg body) = m"
  "signedQtyExpr (adjustTx i now h m q sg body) = (if sg = SIGN_IN then q else - q)"
  "hospital (inTx i now h m q med body) = h" "medication (inTx i now h m q med body) = m"
  "signedQtyExpr (inTx i now h m q med body) = q"
  by (auto simp: outTx_def adjustTx_def inTx_def signedQtyExpr_def intro: sign.exhaust)

lemma createIn_reply:
  "snd (createIn s now body) =
     (case bodyHospital body of None \<Rightarrow> Inl (BadRequest MissingFields) | Some h \<Rightarrow>
     (case bodyMedication body of None \<Rightarrow> Inl (BadRequest MissingFields) | Some m \<Rightarrow>
     (case bodyQty body of None \<Rightarrow> Inl (BadRequest MissingFields) | Some q \<Rightarrow>
      if q = 0 then Inl (BadRequest MissingFields) else
     (case medications s m of None \<Rightarrow> Inl NotFound | Some med \<Rightarrow>
     (case validate (inTx (length (transactions s)) now h m q med body) of
        Some e \<Rightarrow> Inl e
      | None \<Rightarrow> Inr \<lparr>before = getCurrentStock (transactions s) h m None None,
                       after = getCurrentStock (transactions s) h m None None + q,
                       projected = getCurrentStock (transactions s) h m None None + q\<rparr>)))))"
  by (simp add: createIn_def Let_def withTransaction_def saveTx_cases stock_after_append
      out_fields split: option.splits)

lemma createOut_reply:
  "snd (createOut s now body) =
     (case bodyHospital body of None \<Rightarrow> Inl (BadRequest MissingFields) | Some h \<Rightarrow>
     (case bodyMedication body of None \<Rightarrow> Inl (BadRequest MissingFields) | Some m \<Rightarrow>
     (case bodyQty body of None \<Rightarrow> Inl (BadRequest MissingFields) | Some q \<Rightarrow>
      if q = 0 then Inl (BadRequest MissingFields) else
     (case medications s m of None \<Rightarrow> Inl NotFound | Some med \<Rightarrow>
     (case assertSafetyStock med (getCurrentStock (transactions s) h m None None - q) of
        Some e \<Rightarrow> Inl e | None \<Rightarrow>
     (case validate (outTx (length (transactions s)) now h m q body) of
        Some e \<Rightarrow> Inl e
      | None \<Rightarrow> Inr \<lparr>before = getCurrentStock (transactions s) h m None None,
                       after = getCurrentStock (transactions s) h m None None - q,
                       projected = getCurrentStock (transactions s) h m None None - q\<rparr>))))))"
  by (simp add: createOut_def Let_def withTransaction_def saveTx_cases stock_after_append
      out_fields split: option.splits)

lemma createAdjust_reply:
  "snd (createAdjust s now body) =
     (case bodyHospital body of None \<Rightarrow> Inl (BadRequest MissingFields) | Some h \<Rightarrow>
     (case bodyMedication body of None \<Rightarrow> Inl (BadRequest MissingFields) | Some m \<Rightarrow>
     (case bodyQty body of None \<Rightarrow> Inl (BadRequest MissingFields) | Some q \<Rightarrow>
     (case bodyAdjustSign body of None \<Rightarrow> Inl (BadRequest MissingFields) | Some a \<Rightarrow>
      if q = 0 \<or> a = [] then Inl (BadRequest MissingFields) else
     (case parseSign a of None \<Rightarrow> Inl (BadRequest InvalidAdjustSign) | Some sg \<Rightarrow>
     (case medications s m of None \<Rightarrow> Inl NotFound | Some med \<Rightarrow>
     (case (if sg = SIGN_OUT
            then assertSafetyStock med (getCurrentStock (transactions s) h m None None - q)
            else None) of
        Some e \<Rightarrow> Inl e | None \<Rightarrow>
     (case validate (adjustTx (length (transactions s)) now h m q sg body) of
        Some e \<Rightarrow> Inl e
      | None \<Rightarrow>
          Inr \<lparr>before = getCurrentStock (transactions s) h m None None,
               after = getCurrentStock (transactions s) h m None None
                        + (if sg = SIGN_IN then q else - q),
               projected = getCurrentStock (transactions s) h m None None
                        + (if sg = SIGN_IN then q else - q)\<rparr>))))))))"
  by (simp add: createAdjust_def Let_def withTransaction_def saveTx_cases stock_after_append
      out_fields split: option.splits) (auto intro: sign.exhaust)

lemma validate_out_lot:
  "validate (outTx i now h m q (body\<lparr>bodyLot := l, bodyExpiryDate := e\<rparr>))
     = validate (outTx i now h m q body)"
  "validate (adjustTx i now h m q sg (body\<lparr>bodyLot := l, bodyExpiryDate := e\<rparr>))
     = validate (adjustTx i now h m q sg body)"
  by (simp_all add: validate_def preValidate_def schemaValidate_def outTx_def adjustTx_def)

lemma reply_ignores_batch:
  "snd (createOut s now (body\<lparr>bodyLot := l, bodyExpiryDate := e\<rparr>)) = snd (createOut s now body)"
  "snd (createAdjust s now (body\<lparr>bodyLot := l, bodyExpiryDate := e\<rparr>))
     = snd (createAdjust s now body)"
  by (simp_all add: createOut_reply createAdjust_reply validate_out_lot
      cong: option.case_cong if_cong)

section \<open>updateStock: properties\<close>

lemma validate_stockTx:
  "validate (stockTx i now h m delta med sb) = None \<longleftrightarrow>
     \<bar>delta\<bar> \<ge> 1 / 1000000
     \<and> (case sbUnitCost sb of Some c \<Rightarrow> c \<ge> 0 | None \<Rightarrow> unitPrice med \<ge> 0)"
  by (auto simp: validate_None_iff stockTx_def split: option.splits)

lemma updateStock_valid:
  assumes "sbHospitalId sb = Some h" "sbQty sb = Some q" "medications s m = Some med"
    "actionDelta (sbAction sb) q
       (getCurrentStock (transactions s) h m (sbLot sb)
          (map_option RawValue (sbExpiryDate sb))) = Some delta"
  shows "updateStock s now m code sb =
     (let cur = getCurrentStock (transactions s) h m (sbLot sb)
                  (map_option RawValue (sbExpiryDate sb));
          d = stockTx (length (transactions s)) now h m delta med sb;
          s' = s\<lparr>transactions := transactions s @ [d]\<rparr>
      in if delta = 0 then (s, Inr (NoChange cur))
         else if safetyStock (policy med) > 0 \<and> cur + delta < safetyStock (policy med)
         then (s, Inl (SafetyStockViolation (cur + delta) (safetyStock (policy med))))
         else (case validate d of
                 Some e \<Rightarrow> (s, Inl e)
               | None \<Rightarrow>
                  (case maybeTriggerReorder s' h m med code of
                     (s'', Inl e) \<Rightarrow> (s'', Inl e)
                   | (s'', Inr trigger) \<Rightarrow>
                       (s'', Inr (StockUpdated
                          \<lparr>upBefore = cur,
                           upAfter = getCurrentStock (transactions s') h m None None,
                           triggerReorder = created trigger,
                           upNotificationId = notificationId trigger,
                           upPurchaseOrderId = purchaseOrderId trigger\<rparr>)))))"
  using assms
  by (simp add: updateStock_def Let_def withTransaction_def saveTx_cases split: option.splits)

lemma fst_reorder_case:
  "fst (case pr of (a, Inl e) \<Rightarrow> (a, Inl e) | (a, Inr t) \<Rightarrow> (a, Inr (g t))) = fst pr"
  for pr :: "db \<times> (error + reorderResult)" and g :: "reorderResult \<Rightarrow> stockReply"
  by (cases pr) (auto split: sum.splits)

lemma reorder_not_triggered:
  "getCurrentStock (transactions s) h m None None > reorderPoint (policy med) \<Longrightarrow>
     maybeTriggerReorder s h m med code
       = (s, Inr \<lparr>created = False, notificationId = None, purchaseOrderId = None\<rparr>)"
  by (simp add: maybeTriggerReorder_def Let_def)


section \<open>Batch write-off: properties\<close>

text \<open>The groups of the first aggregation: one for every (medication, lot, expiryDate) that
  occurs among the movements of the hospital with an expiry date up to the cutoff (and of
  the medication, when the request names one), with the signed sum of exactly these
  movements as stock, kept when that sum is positive.\<close>

lemma group_filter:
  "filter (\<lambda>d. expiredMatch h c medF d \<and> lotKey d = (m, lt, eo)) coll
     = (case eo of
          None \<Rightarrow> []
        | Some e \<Rightarrow>
            if e \<le> c \<and> (case medF of None \<Rightarrow> True | Some m0 \<Rightarrow> m = m0)
            then filter (\<lambda>d. hospital d = h \<and> medication d = m \<and> lot d = lt
                               \<and> expiryDate d = Some e) coll
            else [])"
  by (induction coll) (auto simp: lotKey_def expiredMatch_def split: option.splits)

lemma expiredLots_mem:
  "l \<in> set (expiredLots coll h c medF) \<longleftrightarrow>
     (groupMedication l, groupLot l, groupExpiryDate l)
        \<in> lotKey ` set (filter (expiredMatch h c medF) coll)
     \<and> stock l = sum_list (map signedQtyExpr
          (filter (\<lambda>d. lotKey d = (groupMedication l, groupLot l, groupExpiryDate l))
             (filter (expiredMatch h c medF) coll)))
     \<and> stock l > 0"
proof -
  have mk: "l \<in> (\<lambda>k. \<lparr>groupMedication = fst k, groupLot = fst (snd k),
                         groupExpiryDate = snd (snd k), stock = f k\<rparr>) ` K
            \<longleftrightarrow> (groupMedication l, groupLot l, groupExpiryDate l) \<in> K
                \<and> stock l = f (groupMedication l, groupLot l, groupExpiryDate l)"
    for f :: "nat \<times> string option \<times> int option \<Rightarrow> rat" and K
  proof
    assume "l \<in> (\<lambda>k. \<lparr>groupMedication = fst k, groupLot = fst (snd k),
                         groupExpiryDate = snd (snd k), stock = f k\<rparr>) ` K"
    then obtain k where "k \<in> K" "l = \<lparr>groupMedication = fst k, groupLot = fst (snd k),
                         groupExpiryDate = snd (snd k), stock = f k\<rparr>"
      by blast
    then show "(groupMedication l, groupLot l, groupExpiryDate l) \<in> K
                \<and> stock l = f (groupMedication l, groupLot l, groupExpiryDate l)"
      by simp
  next
    assume a: "(groupMedication l, groupLot l, groupExpiryDate l) \<in> K
                \<and> stock l = f (groupMedication l, groupLot l, groupExpiryDate l)"
    then have "l = \<lparr>groupMedication = fst (groupMedication l, groupLot l, groupExpiryDate l),
                    groupLot = fst (snd (groupMedication l, groupLot l, groupExpiryDate l)),
                    groupExpiryDate = snd (snd (groupMedication l, groupLot l, groupExpiryDate l)),
                    stock = f (groupMedication l, groupLot l, groupExpiryDate l)\<rparr>"
      by simp
    with a show "l \<in> (\<lambda>k. \<lparr>groupMedication = fst k, groupLot = fst (snd k),
                         groupExpiryDate = snd (snd k), stock = f k\<rparr>) ` K"
      by (metis (mono_tags, lifting) image_eqI)
  qed
  show ?thesis
    unfolding expiredLots_def Let_def set_filter set_map set_remdups mem_Collect_eq mk
    by blast
qed

lemma expiredLots_keys:
  "map (\<lambda>l. (groupMedication l, groupLot l, groupExpiryDate l)) (expiredLots coll h c medF)
     = filter (\<lambda>k. sum_list (map signedQtyExpr
                      (filter (\<lambda>d. lotKey d = k) (filter (expiredMatch h c medF) coll))) > 0)
         (remdups (map lotKey (filter (expiredMatch h c medF) coll)))"
proof -
  have "map (\<lambda>l. (groupMedication l, groupLot l, groupExpiryDate l))
          (filter (\<lambda>g. stock g > 0)
             (map (\<lambda>k. \<lparr>groupMedication = fst k, groupLot = fst (snd k),
                         groupExpiryDate = snd (snd k), stock = f k\<rparr>) ks))
        = filter (\<lambda>k. f k > 0) ks" for f :: "nat \<times> string option \<times> int option \<Rightarrow> rat" and ks
    by (induction ks) auto
  then show ?thesis
    by (simp add: expiredLots_def Let_def)
qed

lemma expiredLots_distinct:
  "distinct (map (\<lambda>l. (groupMedication l, groupLot l, groupExpiryDate l))
      (expiredLots coll h c medF))"
  by (simp only: expiredLots_keys) simp

lemma expiredLots_listed:
  "(\<exists>l \<in> set (expiredLots coll h c medF).
       groupMedication l = m \<and> groupLot l = lt \<and> groupExpiryDate l = Some e)
   \<longleftrightarrow> e \<le> c \<and> (case medF of None \<Rightarrow> True | Some m0 \<Rightarrow> m = m0)
       \<and> sum_list (map signedQtyExpr
            (filter (\<lambda>d. hospital d = h \<and> medication d = m \<and> lot d = lt
                           \<and> expiryDate d = Some e) coll)) > 0"
proof -
  let ?ms = "filter (expiredMatch h c medF) coll"
  let ?scope = "filter (\<lambda>d. hospital d = h \<and> medication d = m \<and> lot d = lt
                           \<and> expiryDate d = Some e) coll"
  let ?ok = "e \<le> c \<and> (case medF of None \<Rightarrow> True | Some m0 \<Rightarrow> m = m0)"
  have g: "filter (\<lambda>d. lotKey d = (m, lt, Some e)) ?ms = (if ?ok then ?scope else [])"
    unfolding filter_filter by (simp only: group_filter) simp
  have "(\<exists>l \<in> set (expiredLots coll h c medF).
           groupMedication l = m \<and> groupLot l = lt \<and> groupExpiryDate l = Some e)
        \<longleftrightarrow> (m, lt, Some e) \<in> set (map (\<lambda>l. (groupMedication l, groupLot l, groupExpiryDate l))
                                    (expiredLots coll h c medF))"
    by (auto simp: image_iff)
  also have "\<dots> \<longleftrightarrow> (m, lt, Some e) \<in> lotKey ` set ?ms
                 \<and> sum_list (map signedQtyExpr (filter (\<lambda>d. lotKey d = (m, lt, Some e)) ?ms)) > 0"
    by (simp only: expiredLots_keys) auto
  also have "\<dots> \<longleftrightarrow> sum_list (map signedQtyExpr (filter (\<lambda>d. lotKey d = (m, lt, Some e)) ?ms)) > 0"
  proof -
    have "(m, lt, Some e) \<in> lotKey ` set ?ms"
      if "sum_list (map signedQtyExpr (filter (\<lambda>d. lotKey d = (m, lt, Some e)) ?ms)) > 0"
    proof -
      from that have "filter (\<lambda>d. lotKey d = (m, lt, Some e)) ?ms \<noteq> []" by auto
      then obtain d where "d \<in> set ?ms" "lotKey d = (m, lt, Some e)"
        by (metis (mono_tags, lifting) filter_False)
      then show ?thesis by force
    qed
    then show ?thesis by blast
  qed
  also have "\<dots> \<longleftrightarrow> ?ok \<and> sum_list (map signedQtyExpr ?scope) > 0"
    unfolding g by auto
  finally show ?thesis by (simp only: conj_assoc)
qed

lemma expiredLots_stock:
  assumes "l \<in> set (expiredLots coll h c medF)"
  shows "\<exists>e. groupExpiryDate l = Some e \<and> e \<le> c \<and> stock l > 0
           \<and> stock l = sum_list (map signedQtyExpr
                (filter (\<lambda>d. hospital d = h \<and> medication d = groupMedication l
                               \<and> lot d = groupLot l \<and> expiryDate d = Some e) coll))"
proof -
  from assms have k: "(groupMedication l, groupLot l, groupExpiryDate l)
        \<in> lotKey ` set (filter (expiredMatch h c medF) coll)"
    and s: "stock l = sum_list (map signedQtyExpr
          (filter (\<lambda>d. lotKey d = (groupMedication l, groupLot l, groupExpiryDate l))
             (filter (expiredMatch h c medF) coll)))"
    and p: "stock l > 0"
    by (simp_all add: expiredLots_mem)
  from k obtain e where e: "groupExpiryDate l = Some e" "e \<le> c"
    "(case medF of None \<Rightarrow> True | Some m0 \<Rightarrow> groupMedication l = m0)"
    by (auto simp: lotKey_def expiredMatch_def split: option.splits)
  from s e have "stock l = sum_list (map signedQtyExpr
                (filter (\<lambda>d. hospital d = h \<and> medication d = groupMedication l
                               \<and> lot d = groupLot l \<and> expiryDate d = Some e) coll))"
    unfolding filter_filter by (simp only: group_filter) simp
  with e p show ?thesis by blast
qed

text \<open>The loop of the transaction. It ends with the error of the first scope that fails,
  a violation of the safety rule or a validation error of the movement; a scope whose
  write-off alone would take the medication below its floor makes it fail.\<close>

lemma writeOffLoop_error:
  "writeOffLoop s now h ls w = Inl e \<Longrightarrow>
     (\<exists>p f. e = SafetyStockViolation p f) \<or> (\<exists>v. e = ValidationError v)"
proof (induction ls arbitrary: w)
  case Nil
  then show ?case by simp
next
  case (Cons l ls)
  then show ?case
    by (auto simp: saveTx_cases Let_def assertSafetyStock_Some
        split: option.splits dest: validate_Some)
qed

lemma writeOffLoop_violation:
  assumes "writeOffLoop s now h ls w = Inl e"
    "\<forall>l \<in> set ls. stock l \<ge> 1 / 1000000"
  shows "\<exists>p f. e = SafetyStockViolation p f"
  using assms
proof (induction ls arbitrary: w)
  case Nil
  then show ?case by simp
next
  case (Cons l ls)
  have v: "validate (writeOffTx i now h l) = None" for i
    unfolding validate_None_iff using Cons.prems(2) by (simp add: writeOffTx_def)
  from Cons show ?case
    by (auto simp: saveTx_cases Let_def assertSafetyStock_Some v split: option.splits)
qed

lemma writeOffLoop_blocked:
  assumes "medications w = medications s"
    "\<exists>l \<in> set ls. \<exists>med. medications s (groupMedication l) = Some med
        \<and> safetyStock (policy med) > 0
        \<and> getCurrentStock (transactions s) h (groupMedication l) None None - stock l
            < safetyStock (policy med)"
  shows "\<exists>e. writeOffLoop s now h ls w = Inl e"
  using assms
proof (induction ls arbitrary: w)
  case Nil
  then show ?case by simp
next
  case (Cons l ls)
  let ?B = "\<lambda>l. \<exists>med. medications s (groupMedication l) = Some med
        \<and> safetyStock (policy med) > 0
        \<and> getCurrentStock (transactions s) h (groupMedication l) None None - stock l
            < safetyStock (policy med)"
  show ?case
  proof (cases "medications s (groupMedication l)")
    case None
    with Cons.prems have "\<exists>l \<in> set ls. ?B l" by auto
    with Cons.IH [OF Cons.prems(1)] None Cons.prems(1) show ?thesis by simp
  next
    case (Some med)
    show ?thesis
    proof (cases "?B l")
      case True
      with Some Cons.prems(1) show ?thesis
        by (auto simp: assertSafetyStock_def Let_def)
    next
      case False
      with Cons.prems have rest: "\<exists>l \<in> set ls. ?B l" by auto
      from False Some have pass: "assertSafetyStock med
            (getCurrentStock (transactions s) h (groupMedication l) None None - stock l) = None"
        by (auto simp: assertSafetyStock_None)
      show ?thesis
      proof (cases "validate (writeOffTx (length (transactions w)) now h l)")
        case None
        let ?w1 = "w\<lparr>transactions := transactions w @ [writeOffTx (length (transactions w)) now h l]\<rparr>"
        have "medications ?w1 = medications s" using Cons.prems(1) by simp
        from Cons.IH [OF this rest] None Some pass Cons.prems(1) show ?thesis
          by (simp add: Let_def saveTx_cases)
      next
        case (Some e)
        with \<open>medications s (groupMedication l) = Some med\<close> pass Cons.prems(1) show ?thesis
          by (simp add: Let_def saveTx_cases)
      qed
    qed
  qed
qed

lemma writeOffLoop_done:
  assumes "medications w = medications s" "writeOffLoop s now h ls w = Inr w'"
  shows "\<exists>ds. w' = w\<lparr>transactions := transactions w @ ds\<rparr>
           \<and> map scopeOf ds = map scopeOfGroup (filter (resolves s) ls)
           \<and> list_all (\<lambda>d. hospital d = h \<and> txType d = OUT \<and> reason d = WRITE_OFF) ds"
  using assms
proof (induction ls arbitrary: w)
  case Nil
  then have "w' = w\<lparr>transactions := transactions w @ []\<rparr>
      \<and> map scopeOf [] = map scopeOfGroup (filter (resolves s) [])
      \<and> list_all (\<lambda>d. hospital d = h \<and> txType d = OUT \<and> reason d = WRITE_OFF) []"
    by simp
  then show ?case by blast
next
  case (Cons l ls)
  show ?case
  proof (cases "medications s (groupMedication l)")
    case None
    with Cons.prems have "writeOffLoop s now h ls w = Inr w'" by simp
    from Cons.IH [OF Cons.prems(1) this] None show ?thesis
      by (simp add: resolves_def)
  next
    case (Some med)
    let ?d = "writeOffTx (length (transactions w)) now h l"
    let ?w1 = "w\<lparr>transactions := transactions w @ [?d]\<rparr>"
    from Cons.prems Some have run: "validate ?d = None" "writeOffLoop s now h ls ?w1 = Inr w'"
      by (auto simp: Let_def saveTx_cases split: option.splits)
    have "medications ?w1 = medications s" using Cons.prems(1) by simp
    from Cons.IH [OF this run(2)] obtain ds where
      ds: "w' = ?w1\<lparr>transactions := transactions ?w1 @ ds\<rparr>"
      "map scopeOf ds = map scopeOfGroup (filter (resolves s) ls)"
      "list_all (\<lambda>d. hospital d = h \<and> txType d = OUT \<and> reason d = WRITE_OFF) ds"
      by blast
    have d: "scopeOf ?d = scopeOfGroup l" "hospital ?d = h \<and> txType ?d = OUT \<and> reason ?d = WRITE_OFF"
      by (simp_all add: scopeOf_def scopeOfGroup_def writeOffTx_def)
    have "w' = w\<lparr>transactions := transactions w @ (?d # ds)\<rparr>"
      using ds(1) by simp
    moreover have "map scopeOf (?d # ds) = map scopeOfGroup (filter (resolves s) (l # ls))"
      using ds(2) d(1) Some by (simp add: resolves_def)
    moreover have "list_all (\<lambda>d. hospital d = h \<and> txType d = OUT \<and> reason d = WRITE_OFF) (?d # ds)"
      using ds(3) d(2) by simp
    ultimately show ?thesis by blast
  qed
qed

lemma writeOffLoop_runs:
  assumes "medications w = medications s"
    "\<forall>l \<in> set ls. \<forall>med. medications s (groupMedication l) = Some med \<longrightarrow>
        stock l \<ge> 1 / 1000000
        \<and> \<not> (safetyStock (policy med) > 0
              \<and> getCurrentStock (transactions s) h (groupMedication l) None None - stock l
                  < safetyStock (policy med))"
  shows "\<exists>w'. writeOffLoop s now h ls w = Inr w'"
  using assms
proof (induction ls arbitrary: w)
  case Nil
  then show ?case by simp
next
  case (Cons l ls)
  from Cons.prems(2) have rest:
    "\<forall>l \<in> set ls. \<forall>med. medications s (groupMedication l) = Some med \<longrightarrow>
        stock l \<ge> 1 / 1000000
        \<and> \<not> (safetyStock (policy med) > 0
              \<and> getCurrentStock (transactions s) h (groupMedication l) None None - stock l
                  < safetyStock (policy med))"
    by simp
  show ?case
  proof (cases "medications s (groupMedication l)")
    case None
    from Cons.IH [OF Cons.prems(1) rest] obtain w' where "writeOffLoop s now h ls w = Inr w'"
      by blast
    with None Cons.prems(1) show ?thesis by simp
  next
    case (Some med)
    let ?d = "writeOffTx (length (transactions w)) now h l"
    let ?w1 = "w\<lparr>transactions := transactions w @ [?d]\<rparr>"
    from Cons.prems(2) Some have ok: "assertSafetyStock med
            (getCurrentStock (transactions s) h (groupMedication l) None None - stock l) = None"
      and big: "stock l \<ge> 1 / 1000000"
      by (auto simp: assertSafetyStock_None)
    from big have v: "validate ?d = None"
      unfolding validate_None_iff by (simp add: writeOffTx_def)
    have "medications ?w1 = medications s" using Cons.prems(1) by simp
    from Cons.IH [OF this rest] obtain w' where "writeOffLoop s now h ls ?w1 = Inr w'"
      by blast
    with Some ok v Cons.prems(1) show ?thesis
      by (simp add: Let_def saveTx_cases)
  qed
qed

text \<open>The stock of a listed scope is part of the stock of all listed scopes of its
  medication.\<close>

lemma stock_le_sum:
  assumes "l \<in> set ls" "\<forall>x \<in> set ls. stock x > 0"
  shows "stock l \<le> sum_list (map stock (filter (\<lambda>x. groupMedication x = groupMedication l) ls))"
  using assms
proof (induction ls)
  case Nil
  then show ?case by simp
next
  case (Cons x xs)
  have nn: "0 \<le> sum_list (map stock (filter (\<lambda>y. groupMedication y = groupMedication l) xs))"
    using Cons.prems(2) by (intro sum_list_nonneg) (auto simp: less_imp_le)
  show ?case
  proof (cases "l = x")
    case True
    with nn show ?thesis by simp
  next
    case False
    with Cons.prems have "l \<in> set xs" "\<forall>y \<in> set xs. stock y > 0" by auto
    from Cons.IH [OF this] Cons.prems(2) show ?thesis
      by (auto simp: less_imp_le intro: add_increasing)
  qed
qed

lemma writeOffExpired_cases:
  assumes "woHospital body = Some h" "cutoffDate body = Some c"
  shows "writeOffExpired s now body =
     (let lots = expiredLots (transactions s) h c (woMedication body)
      in if lots = [] then (s, Inr [])
         else (case writeOffLoop s now h lots s of
                 Inl e \<Rightarrow> (s, Inl e) | Inr w \<Rightarrow> (w, Inr lots)))"
  using assms
  by (simp add: writeOffExpired_def Let_def withTransaction_def split: sum.splits)

lemma exExpired_facts:
  "expiredLots (transactions exExpired) (Suc 0) 10 None = [exLotA, exLotB]"
  "getCurrentStock (transactions exExpired) (Suc 0) (Suc 0) None None = 32"
  "medications exExpired (Suc 0) = Some exMed"
  "safetyStock (policy exMed) = 10"
  by (simp_all add: exExpired_def exDb_def exTx_def exMed_def expiredLots_def expiredMatch_def
      lotKey_def signedQtyExpr_def exLotA_def exLotB_def getCurrentStock_def stockMatch_def)


text \<open>The safety rule of the loop is applied to the total as it was committed before the
  batch, since getCurrentStock is called without the session: two scopes of 15 units each
  pass it on a stock of 35 (35 - 15 = 20 for either), both are written off, and the batch
  leaves a stock of 5, under the safety stock of 10.\<close>

lemma writeOff_reads_committed_total:
  "map stock (expiredLots (transactions exTwoLots) 1 10 None) = [15, 15]
   \<and> (\<exists>lots. snd (writeOffExpired exTwoLots 0 exWriteOff) = Inr lots)
   \<and> map qty (transactions (fst (writeOffExpired exTwoLots 0 exWriteOff))) = [15, 15, 5, 15, 15]
   \<and> map txType (transactions (fst (writeOffExpired exTwoLots 0 exWriteOff)))
       = [IN, IN, IN, OUT, OUT]
   \<and> getCurrentStock (transactions (fst (writeOffExpired exTwoLots 0 exWriteOff))) 1 1 None None
       = 5
   \<and> safetyStock (policy exMed) = 10"
proof -
  let ?a = "\<lparr>groupMedication = Suc 0, groupLot = Some ''A'', groupExpiryDate = Some 5, stock = 15\<rparr>"
  let ?b = "\<lparr>groupMedication = Suc 0, groupLot = Some ''B'', groupExpiryDate = Some 6, stock = 15\<rparr>"
  have l: "expiredLots (transactions exTwoLots) (Suc 0) 10 None = [?a, ?b]"
    by (simp add: exTwoLots_def exDb_def exTx_def expiredLots_def expiredMatch_def lotKey_def
        signedQtyExpr_def)
  have f: "getCurrentStock (transactions exTwoLots) (Suc 0) (Suc 0) None None = 35"
    "medications exTwoLots (Suc 0) = Some exMed" "safetyStock (policy exMed) = 10"
    "length (transactions exTwoLots) = 3"
    by (simp_all add: exTwoLots_def exDb_def exTx_def exMed_def getCurrentStock_def
        stockMatch_def signedQtyExpr_def)
  have v: "validate (writeOffTx i 0 (Suc 0) ?a) = None" "validate (writeOffTx i 0 (Suc 0) ?b) = None"
    for i
    by (simp_all add: validate_None_iff writeOffTx_def)
  have w: "writeOffExpired exTwoLots 0 exWriteOff
      = (exTwoLots\<lparr>transactions := transactions exTwoLots @
            [writeOffTx 3 0 (Suc 0) ?a, writeOffTx 4 0 (Suc 0) ?b]\<rparr>, Inr [?a, ?b])"
    by (simp add: writeOffExpired_def exWriteOff_def l withTransaction_def f saveTx_cases v
        assertSafetyStock_def Let_def)
  have q: "qty (writeOffTx i 0 (Suc 0) ?a) = 15" "qty (writeOffTx i 0 (Suc 0) ?b) = 15"
    "txType (writeOffTx i 0 (Suc 0) ?a) = OUT" "txType (writeOffTx i 0 (Suc 0) ?b) = OUT"
    "hospital (writeOffTx i 0 (Suc 0) ?a) = Suc 0" "hospital (writeOffTx i 0 (Suc 0) ?b) = Suc 0"
    "medication (writeOffTx i 0 (Suc 0) ?a) = Suc 0" "medication (writeOffTx i 0 (Suc 0) ?b) = Suc 0"
    "signedQtyExpr (writeOffTx i 0 (Suc 0) ?a) = - 15"
    "signedQtyExpr (writeOffTx i 0 (Suc 0) ?b) = - 15" for i
    by (simp_all add: writeOffTx_def signedQtyExpr_def)
  have t: "transactions exTwoLots = [exTx 0 1 IN None 15 (Some ''A'') (Some 5),
                                      exTx 1 1 IN None 15 (Some ''B'') (Some 6),
                                      exTx 2 1 IN None 5 (Some ''C'') None]"
    by (simp add: exTwoLots_def)
  have after: "getCurrentStock (transactions exTwoLots @
            [writeOffTx 3 0 (Suc 0) ?a, writeOffTx 4 0 (Suc 0) ?b]) (Suc 0) (Suc 0) None None = 5"
    by (simp add: getCurrentStock_append f) (simp add: getCurrentStock_sum stockMatch_def q)
  have lists: "map qty (transactions exTwoLots @
            [writeOffTx 3 0 (Suc 0) ?a, writeOffTx 4 0 (Suc 0) ?b]) = [15, 15, 5, 15, 15]"
    "map txType (transactions exTwoLots @
            [writeOffTx 3 0 (Suc 0) ?a, writeOffTx 4 0 (Suc 0) ?b]) = [IN, IN, IN, OUT, OUT]"
    by (simp_all add: q) (simp_all add: t exTx_def)
  from l w after lists f(3) show ?thesis by simp
qed

section \<open>Receipts: properties\<close>

text \<open>A receipt with an item that is not on the order is rejected before anything is
  written. For an accepted receipt, the status of the order afterwards is decided by the
  totals of the committed ledger as it was before the receipt.\<close>

lemma validateItems_foreign:
  assumes "\<exists>it \<in> set items. \<exists>m. itemMedication it = Some m \<and> m \<notin> set ms"
  shows "\<exists>e. validateItems ms items = Some e"
  using assms
  by (induction items) (auto split: option.splits)

lemma receivePO_foreign_item:
  assumes "findById (orders s) i = Some p"
    "\<exists>it \<in> set items. \<exists>m. itemMedication it = Some m \<and> m \<notin> lineMedication ` set (lines p)"
  shows "fst (receivePO s now i items) = s \<and> (\<exists>e. snd (receivePO s now i items) = Inl e)"
proof -
  from assms(2) have "items \<noteq> []" by auto
  moreover from validateItems_foreign [of items "map lineMedication (lines p)"] assms(2)
  obtain e where "validateItems (map lineMedication (lines p)) items = Some e" by auto
  ultimately show ?thesis
    using assms(1) by (simp add: receivePO_def)
qed

lemma receiveLoop_orders:
  "receiveLoop now p its w = Inr w' \<Longrightarrow> orders w' = orders w"
proof (induction its arbitrary: w)
  case Nil
  then show ?case by simp
next
  case (Cons it its)
  then show ?case
    by (auto simp: saveTx_cases split: option.splits)
qed

lemma findById_savePO:
  assumes "findById (orders w) i = Some p" "poId p' = i"
  shows "findById (orders (savePO p' w)) i = Some p'"
proof -
  have "find (\<lambda>x. poId x = i) xs = Some p \<Longrightarrow>
        find (\<lambda>x. poId x = i) (map (\<lambda>x. if poId x = i then p' else x) xs) = Some p'" for xs
    using assms(2) by (induction xs) (auto split: if_splits)
  with assms show ?thesis by (simp add: findById_def savePO_def)
qed

lemma findById_id: "findById coll i = Some p \<Longrightarrow> poId p = i"
  by (auto simp: findById_def find_Some_iff)

lemma receivePO_status:
  assumes p: "findById (orders s) i = Some p"
    and ok: "snd (receivePO s now i items) = Inr res"
  shows "status (freshPO res) =
           (if list_all (\<lambda>l. lineQty l
                              \<le> orZero (getReceivedQtyByMedication (transactions s) i
                                          (lineMedication l))) (lines p)
            then RECEIVED
            else if status p = DRAFT then SENT else status p)"
proof -
  let ?all = "list_all (\<lambda>l. lineQty l
                \<le> orZero (getReceivedQtyByMedication (transactions s) i (lineMedication l)))
              (lines p)"
  have i: "poId p = i" using p by (rule findById_id)
  from ok p obtain w where loop: "receiveLoop now p items s = Inr w"
    by (auto simp: receivePO_def withTransaction_def receiveBody_def
        split: if_splits option.splits sum.splits)
  have o: "orders w = orders s" using loop by (rule receiveLoop_orders)
  then have pw: "findById (orders w) i = Some p" using p by simp
  define w' where "w' = (if ?all then savePO (p\<lparr>status := RECEIVED, receivedAt := Some now\<rparr>) w
                         else if status p = DRAFT then savePO (p\<lparr>status := SENT\<rparr>) w else w)"
  have body: "receiveBody s now p items s = Inr w'"
    by (simp add: receiveBody_def loop Let_def w'_def i)
  have fresh: "findById (orders w') i =
      Some (if ?all then p\<lparr>status := RECEIVED, receivedAt := Some now\<rparr>
            else if status p = DRAFT then p\<lparr>status := SENT\<rparr> else p)"
    using pw i by (simp add: w'_def findById_savePO)
  from ok p body fresh i have "freshPO res =
      (if ?all then p\<lparr>status := RECEIVED, receivedAt := Some now\<rparr>
       else if status p = DRAFT then p\<lparr>status := SENT\<rparr> else p)"
    by (auto simp: receivePO_def withTransaction_def split: if_splits option.splits)
  then show ?thesis by simp
qed

lemma exOrdered_facts:
  "findById (orders exOrdered) 0 = Some exPO"
  "orders exOrdered = [exPO]"
  "transactions exOrdered = []"
  "medications exOrdered (Suc 0) = Some exMed"
  "unitPrice exMed = 2"
  by (simp_all add: exOrdered_def exDb_def exPO_def exMed_def findById_def)


section \<open>Claims\<close>

text \<open>C8. Saving a movement fails with a ValidationError when its quantity is not positive
  or when it is an ADJUST without adjustSign, and the transaction that tried to save it
  leaves the state as it was; a save that succeeds appends exactly the movement, which
  then has a positive quantity and, for ADJUST, a sign. Hence every movement of a ledger
  that the controllers built from an empty one satisfies this invariant.\<close>

theorem movement_validation:
  "(qty d \<le> 0 \<or> (txType d = ADJUST \<and> adjustSign d = None) \<longrightarrow>
      (\<exists>f. save d coll = Inl (ValidationError f))
      \<and> (\<exists>f. withTransaction s (saveTx d) = (s, Some (ValidationError f))))
   \<and> (save d' coll' = Inr coll'' \<longrightarrow> coll'' = coll' @ [d'] \<and> movementOk d')
   \<and> (reachable s' \<longrightarrow> list_all movementOk (transactions s'))"
proof (intro conjI impI)
  assume bad: "qty d \<le> 0 \<or> (txType d = ADJUST \<and> adjustSign d = None)"
  then obtain f where f: "validate d = Some (ValidationError f)"
    using validate_fails by blast
  show "\<exists>f. save d coll = Inl (ValidationError f)"
    using f by (simp add: save_def)
  show "\<exists>f. withTransaction s (saveTx d) = (s, Some (ValidationError f))"
    using f by (simp add: withTransaction_def saveTx_cases)
next
  assume "save d' coll' = Inr coll''"
  then show "coll'' = coll' @ [d']" and "movementOk d'"
    by (auto simp: save_def validate_movementOk split: option.splits)
next
  assume "reachable s'"
  then show "list_all movementOk (transactions s')" by (rule reachable_ok)
qed

theorem movement_validation_witness:
  "save (exTx 0 1 OUT None 0 None None) exLedger = Inl (ValidationError QtyMustBePositive)
   \<and> save (exTx 0 1 ADJUST None 5 None None) exLedger = Inl (ValidationError AdjustSignRequired)
   \<and> withTransaction exDb (saveTx (exTx 0 1 OUT None 0 None None))
       = (exDb, Some (ValidationError QtyMustBePositive))
   \<and> save (exTx 4 1 IN None 5 None None) exLedger = Inr (exLedger @ [exTx 4 1 IN None 5 None None])
   \<and> movementOk (exTx 4 1 IN None 5 None None)
   \<and> length (transactions (fst (createIn exDb 0 (exBody 60)))) = 1
   \<and> list_all movementOk (transactions (fst (createIn exDb 0 (exBody 60))))"
proof -
  have r: "reachable (fst (createIn exDb 0 (exBody 60)))"
    by (rule reachable.byCreateIn, rule reachable.initial) (simp add: exDb_def)
  have bad: "qty (exTx 0 1 OUT None 0 None None) \<le> 0" by (simp add: exTx_def)
  have ok: "save (exTx 4 1 IN None 5 None None) exLedger = Inr (exLedger @ [exTx 4 1 IN None 5 None None])"
    by (simp add: save_def validate_def preValidate_def schemaValidate_def exTx_def)
  have len: "length (transactions (fst (createIn exDb 0 (exBody 60)))) = 1"
    by (simp add: createIn_def inTx_def exDb_def exBody_def exMed_def withTransaction_def
        saveTx_cases validate_def preValidate_def schemaValidate_def Let_def getCurrentStock_def
        orUndefined_def)
  show ?thesis
    using movement_validation [of "exTx 0 1 OUT None 0 None None" exLedger exDb
        "exTx 4 1 IN None 5 None None" exLedger "exLedger @ [exTx 4 1 IN None 5 None None]"
        "fst (createIn exDb 0 (exBody 60))"] r bad ok len
    by (simp add: save_def saveTx_cases withTransaction_def validate_def preValidate_def
        schemaValidate_def exTx_def)
qed

text \<open>C6. For every hospital, medication and optional date range the Kardex replay returns
  the movements of the scope inside the range, ordered by createdAt and, for equal times,
  by _id; each row carries the signed quantity of its movement and, as running balance, the
  sum of the signed quantities of the rows up to and including it; the running balance of
  the last row (0 when there is none) is the stock projection of the same hospital and
  medication over the movements inside the same range, and without a range it is
  getCurrentStock of the whole ledger.\<close>

theorem kardex_consistent:
  "\<exists>rows. kardexByMedication coll (Some h) (Some m) dateFrom dateTo = Inr rows
     \<and> mset (map doc rows) = mset (filter (kardexMatch h m dateFrom dateTo) coll)
     \<and> sorted (map (sortKey \<circ> doc) rows)
     \<and> (\<forall>i j. i < j \<and> j < length rows \<longrightarrow>
           createdAt (doc (rows ! i)) < createdAt (doc (rows ! j))
           \<or> (createdAt (doc (rows ! i)) = createdAt (doc (rows ! j))
               \<and> oid (doc (rows ! i)) \<le> oid (doc (rows ! j))))
     \<and> (\<forall>i. i < length rows \<longrightarrow>
           signedQty (rows ! i) = signedQtyExpr (doc (rows ! i))
           \<and> runningBalance (rows ! i)
               = sum_list (map signedQtyExpr (map doc (take (Suc i) rows))))
     \<and> finalBalance rows
         = getCurrentStock (filter (withinDates dateFrom dateTo) coll) h m None None
     \<and> (dateFrom = None \<and> dateTo = None \<longrightarrow>
           finalBalance rows = getCurrentStock coll h m None None)"
proof -
  let ?ds = "sort_key sortKey (filter (kardexMatch h m dateFrom dateTo) coll)"
  let ?rows = "setWindowFields 0 ?ds"
  have docs: "map doc ?rows = ?ds" by (rule setWindowFields_doc)
  have len: "length ?rows = length ?ds" by (rule setWindowFields_length)
  have k: "kardexByMedication coll (Some h) (Some m) dateFrom dateTo = Inr ?rows"
    by (simp add: kardexByMedication_def)
  have perm: "mset (map doc ?rows) = mset (filter (kardexMatch h m dateFrom dateTo) coll)"
    by (simp add: docs)
  have srt: "sorted (map (sortKey \<circ> doc) ?rows)"
    using sorted_sort_key [of sortKey "filter (kardexMatch h m dateFrom dateTo) coll"]
    by (simp add: docs flip: map_map)
  have ord: "createdAt (doc (?rows ! i)) < createdAt (doc (?rows ! j))
           \<or> (createdAt (doc (?rows ! i)) = createdAt (doc (?rows ! j))
               \<and> oid (doc (?rows ! i)) \<le> oid (doc (?rows ! j)))"
    if "i < j \<and> j < length ?rows" for i j
  proof -
    from that have ij: "i \<le> j" "j < length (map (sortKey \<circ> doc) ?rows)" by simp_all
    from sorted_nth_mono [OF srt ij]
    have "sortKey (doc (?rows ! i)) \<le> sortKey (doc (?rows ! j))"
      using that by simp
    then show ?thesis by (auto simp: sortKey_def)
  qed
  have run: "signedQty (?rows ! i) = signedQtyExpr (doc (?rows ! i))
           \<and> runningBalance (?rows ! i)
               = sum_list (map signedQtyExpr (map doc (take (Suc i) ?rows)))"
    if "i < length ?rows" for i
  proof -
    from that len have i: "i < length ?ds" by simp
    have d: "doc (?rows ! i) = ?ds ! i"
      using that by (metis docs nth_map)
    have t: "map doc (take (Suc i) ?rows) = take (Suc i) ?ds"
      by (simp add: docs flip: take_map)
    show ?thesis
      using setWindowFields_nth [OF i, of 0] by (simp only: d t) simp
  qed
  have fin: "finalBalance ?rows
         = getCurrentStock (filter (withinDates dateFrom dateTo) coll) h m None None"
    by (simp only: setWindowFields_final sum_list_sort_key getCurrentStock_sum
        kardex_scope_filter)
  have all: "finalBalance ?rows = getCurrentStock coll h m None None"
    if "dateFrom = None \<and> dateTo = None"
    using that fin by (simp add: withinDates_def)
  from k perm srt ord run fin all show ?thesis by blast
qed

theorem kardex_consistent_witness:
  "kardexByMedication exLedger (Some 1) (Some 1) None None
     = Inr (setWindowFields 0 exLedger)
   \<and> map runningBalance (setWindowFields 0 exLedger) = [60, 40, 45, 30]
   \<and> finalBalance (setWindowFields 0 exLedger) = getCurrentStock exLedger 1 1 None None
   \<and> kardexByMedication (rev exLedger) (Some 1) (Some 1) (Some 1) (Some 2)
     = Inr (setWindowFields 0 [exLedger ! 1, exLedger ! 2])
   \<and> map runningBalance (setWindowFields 0 [exLedger ! 1, exLedger ! 2]) = [- 20, - 15]"
  using kardex_consistent [of exLedger 1 1 None None]
  by (simp add: kardexByMedication_def exLedger_def exTx_def kardexMatch_def sortKey_def
      signedQtyExpr_def finalBalance_def getCurrentStock_def stockMatch_def)

text \<open>C1. Hospital 1 holds 100 units of medication 1 in lot A with expiry date 500 and 50
  units in lot B with expiry date 900. The movements of the scope narrowed to the expiry
  date 500 sum to 100, and the projection narrowed by lot A is 100. The projection narrowed
  by the expiry date of a request is 0: getCurrentStock puts the value it is given into its
  \<open>$match\<close> stage, updateStock gives it the expiryDate of the request body as it arrived,
  and that text equals no stored date (given the date itself, the same pipeline yields
  100). So updateStock, asked to set the stock of that expiry date to the 100 units it
  has, reads a current stock of 0, appends an ADJUST of +100 and reports 0 before and 250
  after.\<close>

theorem expiry_scope_projects_to_zero:
  "sum_list (map signedQtyExpr
      (filter (\<lambda>d. hospital d = 1 \<and> medication d = 1 \<and> expiryDate d = Some 500)
         (transactions exDated))) = 100
   \<and> getCurrentStock (transactions exDated) 1 1 None (Some (RawValue (DateText 500))) = 0
   \<and> getCurrentStock (transactions exDated) 1 1 None (Some (DateValue 500)) = 100
   \<and> getCurrentStock (transactions exDated) 1 1 (Some ''A'') None = 100
   \<and> getCurrentStock (transactions exDated) 1 1 None None = 150
   \<and> snd (updateStock exDated 0 1 exCode
            ((exStockBody ''set'' 100 None)\<lparr>sbExpiryDate := Some (DateText 500)\<rparr>))
       = Inr (StockUpdated \<lparr>upBefore = 0, upAfter = 250, triggerReorder = False,
                             upNotificationId = None, upPurchaseOrderId = None\<rparr>)
   \<and> map txType (transactions (fst (updateStock exDated 0 1 exCode
            ((exStockBody ''set'' 100 None)\<lparr>sbExpiryDate := Some (DateText 500)\<rparr>))))
       = [IN, IN, ADJUST]
   \<and> map adjustSign (transactions (fst (updateStock exDated 0 1 exCode
            ((exStockBody ''set'' 100 None)\<lparr>sbExpiryDate := Some (DateText 500)\<rparr>))))
       = [None, None, Some SIGN_IN]
   \<and> map qty (transactions (fst (updateStock exDated 0 1 exCode
            ((exStockBody ''set'' 100 None)\<lparr>sbExpiryDate := Some (DateText 500)\<rparr>))))
       = [100, 50, 100]
   \<and> map expiryDate (transactions (fst (updateStock exDated 0 1 exCode
            ((exStockBody ''set'' 100 None)\<lparr>sbExpiryDate := Some (DateText 500)\<rparr>))))
       = [Some 500, Some 900, Some 500]"
proof -
  let ?b = "(exStockBody ''set'' 100 None)\<lparr>sbExpiryDate := Some (DateText 500)\<rparr>"
  let ?d = "stockTx (length (transactions exDated)) 0 (Suc 0) (Suc 0) 100 exMed ?b"
  let ?s' = "exDated\<lparr>transactions := transactions exDated @ [?d]\<rparr>"
  have t: "transactions exDated = [exTx 0 1 IN None 100 (Some ''A'') (Some 500),
                                    exTx 1 1 IN None 50 (Some ''B'') (Some 900)]"
    "medications exDated (Suc 0) = Some exMed" "safetyStock (policy exMed) = 10"
    "reorderPoint (policy exMed) = 50" "unitPrice exMed = 2"
    by (simp_all add: exDated_def exDb_def exMed_def)
  have p: "getCurrentStock (transactions exDated) (Suc 0) (Suc 0) None
             (Some (RawValue (DateText 500))) = 0"
    "getCurrentStock (transactions exDated) (Suc 0) (Suc 0) None (Some (DateValue 500)) = 100"
    "getCurrentStock (transactions exDated) (Suc 0) (Suc 0) (Some ''A'') None = 100"
    "getCurrentStock (transactions exDated) (Suc 0) (Suc 0) None None = 150"
    by (simp_all add: t exTx_def getCurrentStock_def stockMatch_def signedQtyExpr_def)
  have b: "sbHospitalId ?b = Some (Suc 0)" "sbQty ?b = Some 100" "sbLot ?b = None"
    "sbExpiryDate ?b = Some (DateText 500)" "sbAction ?b = Some ''set''" "sbUnitCost ?b = None"
    by (simp_all add: exStockBody_def)
  have d: "validate ?d = None" "txType ?d = ADJUST" "adjustSign ?d = Some SIGN_IN"
    "qty ?d = 100" "expiryDate ?d = Some 500" "hospital ?d = Suc 0" "medication ?d = Suc 0"
    "signedQtyExpr ?d = 100"
    by (simp_all add: validate_None_iff stockTx_def b t(5) signedQtyExpr_def)
  have aft: "getCurrentStock (transactions exDated @ [?d]) (Suc 0) (Suc 0) None None = 250"
    by (simp add: stock_after_append d p)
  have delta: "actionDelta (sbAction ?b) 100
       (getCurrentStock (transactions exDated) (Suc 0) (Suc 0) (sbLot ?b)
          (map_option RawValue (sbExpiryDate ?b))) = Some 100"
    by (simp add: b p actionDelta_def)
  have re: "maybeTriggerReorder ?s' (Suc 0) (Suc 0) exMed exCode
       = (?s', Inr \<lparr>created = False, notificationId = None, purchaseOrderId = None\<rparr>)"
  proof (rule reorder_not_triggered)
    show "reorderPoint (policy exMed) < getCurrentStock (transactions ?s') (Suc 0) (Suc 0) None None"
      using aft t(4) by simp
  qed
  have u: "updateStock exDated 0 (Suc 0) exCode ?b
       = (?s', Inr (StockUpdated \<lparr>upBefore = 0, upAfter = 250, triggerReorder = False,
                                   upNotificationId = None, upPurchaseOrderId = None\<rparr>))"
    using updateStock_valid [OF b(1) b(2) t(2) delta, of 0 exCode] aft
    by (simp add: Let_def b p t(3) d(1) re)
  have tx: "map txType (transactions exDated @ [?d]) = [IN, IN, ADJUST]"
    "map adjustSign (transactions exDated @ [?d]) = [None, None, Some SIGN_IN]"
    "map qty (transactions exDated @ [?d]) = [100, 50, 100]"
    "map expiryDate (transactions exDated @ [?d]) = [Some 500, Some 900, Some 500]"
    by (simp_all add: d) (simp_all add: t(1) exTx_def)
  have s: "sum_list (map signedQtyExpr
      (filter (\<lambda>d. hospital d = 1 \<and> medication d = 1 \<and> expiryDate d = Some 500)
         (transactions exDated))) = 100"
    by (simp add: t exTx_def signedQtyExpr_def)
  from s p u tx show ?thesis by simp
qed

text \<open>C2. On an empty ledger, with a safety stock of 10, updateStock rejects an increment of
  5, a stock-increasing ADJUST, with the safety-stock violation (projected 5, floor 10) and
  appends nothing. createIn and createAdjust with sign IN accept the same increase on the
  same state: they apply the rule to decreases only.\<close>

theorem increase_blocked_by_stock_update:
  "updateStock exDb 0 1 exCode (exStockBody ''increment'' 5 None)
     = (exDb, Inl (SafetyStockViolation 5 10))
   \<and> snd (createIn exDb 0 (exBody 5)) = Inr \<lparr>before = 0, after = 5, projected = 5\<rparr>
   \<and> snd (createAdjust exDb 0 ((exBody 5)\<lparr>bodyAdjustSign := Some ''IN''\<rparr>))
       = Inr \<lparr>before = 0, after = 5, projected = 5\<rparr>
   \<and> length (transactions (fst (createIn exDb 0 (exBody 5)))) = 1
   \<and> length (transactions (fst (createAdjust exDb 0
         ((exBody 5)\<lparr>bodyAdjustSign := Some ''IN''\<rparr>)))) = 1"
proof -
  have m: "medications exDb (Suc 0) = Some exMed" "safetyStock (policy exMed) = 10"
    "transactions exDb = []" "unitPrice exMed = 2"
    by (simp_all add: exDb_def exMed_def)
  have u: "updateStock exDb 0 1 exCode (exStockBody ''increment'' 5 None)
     = (exDb, Inl (SafetyStockViolation 5 10))"
    by (simp add: updateStock_def exStockBody_def actionDelta_def getCurrentStock_def
        Let_def m)
  have i: "snd (createIn exDb 0 (exBody 5)) = Inr \<lparr>before = 0, after = 5, projected = 5\<rparr>"
    by (simp add: createIn_reply exBody_def m getCurrentStock_def validate_def preValidate_def
        schemaValidate_def inTx_def)
  have a: "snd (createAdjust exDb 0 ((exBody 5)\<lparr>bodyAdjustSign := Some ''IN''\<rparr>))
       = Inr \<lparr>before = 0, after = 5, projected = 5\<rparr>"
    by (simp add: createAdjust_reply exBody_def parseSign_def m getCurrentStock_def
        validate_def preValidate_def schemaValidate_def adjustTx_def)
  have li: "length (transactions (fst (createIn exDb 0 (exBody 5)))) = 1"
    by (simp add: createIn_def exBody_def m getCurrentStock_def Let_def withTransaction_def
        saveTx_cases validate_def preValidate_def schemaValidate_def inTx_def)
  have la: "length (transactions (fst (createAdjust exDb 0
         ((exBody 5)\<lparr>bodyAdjustSign := Some ''IN''\<rparr>)))) = 1"
    by (simp add: createAdjust_def exBody_def parseSign_def m getCurrentStock_def Let_def
        withTransaction_def saveTx_cases validate_def preValidate_def schemaValidate_def
        adjustTx_def)
  from u i a li la show ?thesis by simp
qed

text \<open>C9. With 100 units in each of the lots A and B and a safety stock of 10, updateStock
  rejects a decrement of 95 that names lot A: it checks the rule on the projection of lot A
  alone, 100 - 95 = 5, where the projection over all lots gives 105. The same decrease
  through createAdjust passes and reports 200 before and 105 after. With an expiry date in
  the request the stock that updateStock checks is 0 (the text of the request matches no
  stored date): a decrement of 50 on a stock of 150 is rejected with a projected stock of
  -50, where createAdjust reports 150 before and 100 after.\<close>

theorem stock_update_guard_is_narrowed_by_lot:
  "updateStock exLots 0 1 exCode (exStockBody ''decrement'' 95 (Some ''A''))
     = (exLots, Inl (SafetyStockViolation 5 10))
   \<and> getCurrentStock (transactions exLots) 1 1 None None - 95 = 105
   \<and> snd (createAdjust exLots 0 ((exBody 95)\<lparr>bodyAdjustSign := Some ''OUT'', bodyLot := Some ''A''\<rparr>))
       = Inr \<lparr>before = 200, after = 105, projected = 105\<rparr>
   \<and> updateStock exDated 0 1 exCode
        ((exStockBody ''decrement'' 50 None)\<lparr>sbExpiryDate := Some (DateText 500)\<rparr>)
     = (exDated, Inl (SafetyStockViolation (- 50) 10))
   \<and> snd (createAdjust exDated 0
        ((exBody 50)\<lparr>bodyAdjustSign := Some ''OUT'', bodyExpiryDate := Some (DateText 500)\<rparr>))
       = Inr \<lparr>before = 150, after = 100, projected = 100\<rparr>"
proof -
  have a: "getCurrentStock (transactions exLots) (Suc 0) (Suc 0) (Some ''A'') None = 100"
    "getCurrentStock (transactions exLots) (Suc 0) (Suc 0) None None = 200"
    by (simp_all add: exLots_def exDb_def exTx_def getCurrentStock_def stockMatch_def
        signedQtyExpr_def)
  have m: "medications exLots (Suc 0) = Some exMed" "safetyStock (policy exMed) = 10"
    "medications exDated (Suc 0) = Some exMed"
    by (simp_all add: exLots_def exDated_def exDb_def exMed_def)
  have p: "getCurrentStock (transactions exDated) (Suc 0) (Suc 0) None None = 150"
    by (simp add: exDated_def exDb_def exTx_def getCurrentStock_def stockMatch_def
        signedQtyExpr_def)
  have u: "updateStock exLots 0 1 exCode (exStockBody ''decrement'' 95 (Some ''A''))
     = (exLots, Inl (SafetyStockViolation 5 10))"
    by (simp add: updateStock_def exStockBody_def actionDelta_def Let_def a m)
  have c: "snd (createAdjust exLots 0 ((exBody 95)\<lparr>bodyAdjustSign := Some ''OUT'', bodyLot := Some ''A''\<rparr>))
       = Inr \<lparr>before = 200, after = 105, projected = 105\<rparr>"
    by (simp add: createAdjust_reply exBody_def parseSign_def assertSafetyStock_def a m
        validate_def preValidate_def schemaValidate_def adjustTx_def)
  have u2: "updateStock exDated 0 1 exCode
        ((exStockBody ''decrement'' 50 None)\<lparr>sbExpiryDate := Some (DateText 500)\<rparr>)
     = (exDated, Inl (SafetyStockViolation (- 50) 10))"
    by (simp add: updateStock_def exStockBody_def actionDelta_def Let_def m
        getCurrentStock_raw)
  have c2: "snd (createAdjust exDated 0
        ((exBody 50)\<lparr>bodyAdjustSign := Some ''OUT'', bodyExpiryDate := Some (DateText 500)\<rparr>))
       = Inr \<lparr>before = 150, after = 100, projected = 100\<rparr>"
    by (simp add: createAdjust_reply exBody_def parseSign_def assertSafetyStock_def p m
        validate_def preValidate_def schemaValidate_def adjustTx_def)
  from u c a u2 c2 show ?thesis by simp
qed






text \<open>C3, as the claim states it, fails on the cross-reference: a transfer of 5 from hospital
  1 to hospital 2 appends the OUT leg with id 2 and the IN leg with id 3; the IN leg has
  refId 2, the OUT leg has no refId.\<close>

theorem transfer_out_leg_has_no_reference:
  "map oid (drop 2 (transactions (fst (transferBetweenHospitals exStocked 0 (exXfer 5))))) = [2, 3]
   \<and> map txType (drop 2 (transactions (fst (transferBetweenHospitals exStocked 0 (exXfer 5)))))
       = [OUT, IN]
   \<and> map hospital (drop 2 (transactions (fst (transferBetweenHospitals exStocked 0 (exXfer 5)))))
       = [1, 2]
   \<and> map refId (drop 2 (transactions (fst (transferBetweenHospitals exStocked 0 (exXfer 5)))))
       = [None, Some 2]"
proof -
  have b: "fromHospital (exXfer 5) = Some ''000000000000000000000001''"
    "toHospital (exXfer 5) = Some ''000000000000000000000002''"
    "xferMedication (exXfer 5) = Some (Suc 0)" "xferQty (exXfer 5) = Some 5"
    by (simp_all add: exXfer_def)
  have m: "medications exStocked (Suc 0) = Some exMed" "safetyStock (policy exMed) = 10"
    "length (transactions exStocked) = 2"
    by (simp_all add: exStocked_def exDb_def exMed_def)
  have stk: "getCurrentStock (transactions exStocked) (Suc 0) (Suc 0) None None = 15"
    by (simp add: exStocked_def exDb_def exTx_def getCurrentStock_def stockMatch_def
        signedQtyExpr_def)
  have t: "fst (transferBetweenHospitals exStocked 0 (exXfer 5))
      = exStocked\<lparr>transactions := transactions exStocked @
           [xferOutTx 2 0 (Suc 0) (Suc 0) 5 (exXfer 5),
            xferInTx 3 0 2 (Suc 0) 5 2 (exXfer 5)]\<rparr>"
    using transfer_valid [OF b(1) b(2) b(3) b(4) _ _ newObjectId_examples(1)
        newObjectId_examples(2) m(1), of 0]
    by (simp add: Let_def m stk eval_nat_numeral)
  show ?thesis
    by (simp add: t m xferOutTx_def xferInTx_def)
qed

text \<open>C3, amended. A transfer either leaves the state as it is or appends exactly two
  movements, never one: an OUT at the source hospital with reason TRANSFER_OUT and an IN at
  the destination with reason TRANSFER_IN, both of the requested medication and quantity
  and with refType XFER; the IN leg carries the id of the OUT leg as refId, and the OUT leg
  carries no refId. A transfer whose source and destination are given as the same text is
  rejected with a 400 reply and changes nothing. For a request that names two different
  hospitals, a non-zero qty and an existing medication, the transfer ends with
  SafetyStockViolation exactly when the safetyStock is positive and the stock of the
  medication at the source, minus qty, is below it; the stock at the destination plays no
  part. When the rule passes and qty is at least the schema minimum, both legs are appended
  and the reply reports the stock of the source before and after and of the destination
  after.\<close>

theorem transfer_two_or_none:
  "let r = transferBetweenHospitals s now body; n = length (transactions s);
       stockAt = (\<lambda>x mm. sum_list (map signedQtyExpr
                    (filter (\<lambda>d. hospital d = x \<and> medication d = mm) (transactions s))))
   in (fst r = s
       \<or> (\<exists>ta tb a b m q ot it.
            fromHospital body = Some ta \<and> toHospital body = Some tb
            \<and> newObjectId ta = Some a \<and> newObjectId tb = Some b
            \<and> xferMedication body = Some m \<and> xferQty body = Some q
            \<and> fst r = s\<lparr>transactions := transactions s @ [ot, it]\<rparr>
            \<and> hospital ot = a \<and> medication ot = m \<and> txType ot = OUT \<and> qty ot = q
            \<and> reason ot = TRANSFER_OUT \<and> refType ot = XFER \<and> refId ot = None \<and> oid ot = n
            \<and> hospital it = b \<and> medication it = m \<and> txType it = IN \<and> qty it = q
            \<and> reason it = TRANSFER_IN \<and> refType it = XFER \<and> refId it = Some (oid ot)))
    \<and> length (transactions (fst r)) \<noteq> Suc n
    \<and> (fromHospital body = toHospital body \<longrightarrow>
          fst r = s \<and> (\<exists>b. snd r = Inl (BadRequest b)))
    \<and> (fromHospital body = Some ta' \<and> toHospital body = Some tb'
        \<and> newObjectId ta' = Some a' \<and> newObjectId tb' = Some b' \<and> a' \<noteq> b'
        \<and> xferMedication body = Some m' \<and> xferQty body = Some q' \<and> q' \<noteq> 0
        \<and> medications s m' = Some med \<longrightarrow>
          (snd r = Inl (SafetyStockViolation p f) \<longleftrightarrow>
             p = stockAt a' m' - q' \<and> f = safetyStock (policy med) \<and> f > 0 \<and> p < f)
          \<and> (\<not> (safetyStock (policy med) > 0 \<and> stockAt a' m' - q' < safetyStock (policy med))
              \<and> q' \<ge> 1 / 1000000 \<longrightarrow>
                length (transactions (fst r)) = n + 2
                \<and> snd r = Inr \<lparr>fromBefore = stockAt a' m',
                               fromAfter = stockAt a' m' - q',
                               toAfter = stockAt b' m' + q'\<rparr>))"
proof -
  let ?r = "transferBetweenHospitals s now body"
  let ?n = "length (transactions s)"
  let ?valid = "\<exists>ta tb a b m q med. fromHospital body = Some ta \<and> toHospital body = Some tb
            \<and> xferMedication body = Some m \<and> xferQty body = Some q \<and> q \<noteq> 0 \<and> ta \<noteq> tb
            \<and> newObjectId ta = Some a \<and> newObjectId tb = Some b
            \<and> medications s m = Some med"
  have two: "fst ?r = s
       \<or> (\<exists>ta tb a b m q ot it.
            fromHospital body = Some ta \<and> toHospital body = Some tb
            \<and> newObjectId ta = Some a \<and> newObjectId tb = Some b
            \<and> xferMedication body = Some m \<and> xferQty body = Some q
            \<and> fst ?r = s\<lparr>transactions := transactions s @ [ot, it]\<rparr>
            \<and> hospital ot = a \<and> medication ot = m \<and> txType ot = OUT \<and> qty ot = q
            \<and> reason ot = TRANSFER_OUT \<and> refType ot = XFER \<and> refId ot = None \<and> oid ot = ?n
            \<and> hospital it = b \<and> medication it = m \<and> txType it = IN \<and> qty it = q
            \<and> reason it = TRANSFER_IN \<and> refType it = XFER \<and> refId it = Some (oid ot))"
  proof (cases ?valid)
    case False
    then show ?thesis using transfer_invalid [of body s now] by blast
  next
    case True
    then obtain ta tb a b m q med where v: "fromHospital body = Some ta"
      "toHospital body = Some tb" "xferMedication body = Some m" "xferQty body = Some q"
      "q \<noteq> 0" "ta \<noteq> tb" "newObjectId ta = Some a" "newObjectId tb = Some b"
      "medications s m = Some med"
      by blast
    let ?ot = "xferOutTx ?n now a m q body"
    let ?it = "xferInTx (Suc ?n) now b m q ?n body"
    have fields: "hospital ?ot = a \<and> medication ?ot = m \<and> txType ?ot = OUT \<and> qty ?ot = q
            \<and> reason ?ot = TRANSFER_OUT \<and> refType ?ot = XFER \<and> refId ?ot = None \<and> oid ?ot = ?n
            \<and> hospital ?it = b \<and> medication ?it = m \<and> txType ?it = IN \<and> qty ?it = q
            \<and> reason ?it = TRANSFER_IN \<and> refType ?it = XFER \<and> refId ?it = Some (oid ?ot)"
      by (simp add: xferOutTx_def xferInTx_def)
    have "fst ?r = s \<or> fst ?r = s\<lparr>transactions := transactions s @ [?ot, ?it]\<rparr>"
      by (simp add: transfer_valid [OF v] Let_def)
    then show ?thesis
    proof
      assume "fst ?r = s"
      then show ?thesis by simp
    next
      assume "fst ?r = s\<lparr>transactions := transactions s @ [?ot, ?it]\<rparr>"
      with v fields show ?thesis by blast
    qed
  qed
  have notone: "length (transactions (fst ?r)) \<noteq> Suc ?n"
    using two by auto
  have same: "fst ?r = s \<and> (\<exists>b. snd ?r = Inl (BadRequest b))"
    if "fromHospital body = toHospital body"
    using transfer_same [OF that, of s now] by auto
  have guard: "(snd ?r = Inl (SafetyStockViolation p f) \<longleftrightarrow>
             p = getCurrentStock (transactions s) a' m' None None - q'
             \<and> f = safetyStock (policy med) \<and> f > 0 \<and> p < f)
          \<and> (\<not> (safetyStock (policy med) > 0
                  \<and> getCurrentStock (transactions s) a' m' None None - q' < safetyStock (policy med))
              \<and> q' \<ge> 1 / 1000000 \<longrightarrow>
                length (transactions (fst ?r)) = ?n + 2
                \<and> snd ?r = Inr \<lparr>fromBefore = getCurrentStock (transactions s) a' m' None None,
                               fromAfter = getCurrentStock (transactions s) a' m' None None - q',
                               toAfter = getCurrentStock (transactions s) b' m' None None + q'\<rparr>)"
    if v: "fromHospital body = Some ta' \<and> toHospital body = Some tb'
        \<and> newObjectId ta' = Some a' \<and> newObjectId tb' = Some b' \<and> a' \<noteq> b'
        \<and> xferMedication body = Some m' \<and> xferQty body = Some q' \<and> q' \<noteq> 0
        \<and> medications s m' = Some med"
  proof -
    from v have ne: "a' \<noteq> b'" by blast
    from v have "ta' \<noteq> tb'" by auto
    with v have v': "fromHospital body = Some ta'" "toHospital body = Some tb'"
      "xferMedication body = Some m'" "xferQty body = Some q'" "q' \<noteq> 0" "ta' \<noteq> tb'"
      "newObjectId ta' = Some a'" "newObjectId tb' = Some b'" "medications s m' = Some med"
      by blast+
    have nsv: "the (validate d) \<noteq> SafetyStockViolation p f" if "validate d \<noteq> None" for d
      using that validate_not_safety [of d p f] by auto
    have nv: "validate (xferOutTx ?n now a' m' q' body) \<noteq> None" if "\<not> q' \<ge> 1 / 1000000"
      using that by (simp only: validate_xfer) simp
    show ?thesis
      using nsv [OF nv] by (auto simp: transfer_valid [OF v'] Let_def transfer_after [OF ne])
  qed
  show ?thesis
    unfolding Let_def getCurrentStock_total [symmetric] using two notone same guard by blast
qed

theorem transfer_two_or_none_witness:
  "newObjectId ''000000000000000000000001'' = Some 1
   \<and> newObjectId ''000000000000000000000002'' = Some 2
   \<and> length (transactions (fst (transferBetweenHospitals exStocked 0 (exXfer 5)))) = 4
   \<and> snd (transferBetweenHospitals exStocked 0 (exXfer 5))
       = Inr \<lparr>fromBefore = 15, fromAfter = 10, toAfter = 5\<rparr>
   \<and> snd (transferBetweenHospitals exStocked 0 (exXfer 10)) = Inl (SafetyStockViolation 5 10)
   \<and> fst (transferBetweenHospitals exStocked 0
        ((exXfer 5)\<lparr>toHospital := Some ''000000000000000000000001''\<rparr>)) = exStocked"
proof -
  have stk: "sum_list (map signedQtyExpr
                (filter (\<lambda>d. hospital d = Suc 0 \<and> medication d = Suc 0)
                   (transactions exStocked))) = 15"
    "sum_list (map signedQtyExpr
                (filter (\<lambda>d. hospital d = 2 \<and> medication d = Suc 0)
                   (transactions exStocked))) = 0"
    by (simp_all add: exStocked_def exDb_def exTx_def signedQtyExpr_def)
  have med: "medications exStocked (Suc 0) = Some exMed" "safetyStock (policy exMed) = 10"
    "length (transactions exStocked) = 2"
    by (simp_all add: exStocked_def exDb_def exMed_def)
  have ids: "newObjectId ''000000000000000000000001'' = Some (Suc 0)"
    "newObjectId ''000000000000000000000002'' = Some 2"
    using newObjectId_examples(1,2) by simp_all
  note t5 = transfer_two_or_none [where s = exStocked and now = 0 and body = "exXfer 5"
      and ta' = "''000000000000000000000001''" and tb' = "''000000000000000000000002''"
      and a' = 1 and b' = 2 and m' = 1 and q' = 5 and med = exMed and p = 5 and f = 10]
  note t10 = transfer_two_or_none [where s = exStocked and now = 0 and body = "exXfer 10"
      and ta' = "''000000000000000000000001''" and tb' = "''000000000000000000000002''"
      and a' = 1 and b' = 2 and m' = 1 and q' = 10 and med = exMed and p = 5 and f = 10]
  note same = transfer_two_or_none [where s = exStocked and now = 0
      and body = "(exXfer 5)\<lparr>toHospital := Some ''000000000000000000000001''\<rparr>"
      and ta' = "''000000000000000000000001''" and tb' = "''000000000000000000000002''"
      and a' = 1 and b' = 2 and m' = 1 and q' = 5 and med = exMed and p = 5 and f = 10]
  have a: "length (transactions (fst (transferBetweenHospitals exStocked 0 (exXfer 5)))) = 4
     \<and> snd (transferBetweenHospitals exStocked 0 (exXfer 5))
       = Inr \<lparr>fromBefore = 15, fromAfter = 10, toAfter = 5\<rparr>"
    using t5 by (simp add: Let_def exXfer_def stk med ids)
  have b: "snd (transferBetweenHospitals exStocked 0 (exXfer 10)) = Inl (SafetyStockViolation 5 10)"
    using t10 by (simp add: Let_def exXfer_def stk med ids)
  have c: "fst (transferBetweenHospitals exStocked 0
        ((exXfer 5)\<lparr>toHospital := Some ''000000000000000000000001''\<rparr>)) = exStocked"
    using same by (simp add: Let_def exXfer_def)
  from a b c ids show ?thesis by simp
qed


text \<open>C10, as the claim states it, fails when the safety rule blocks: with a stock of 15 and
  a safety stock of 10, setting the stock to 5 has the delta -10 and is rejected with the
  violation (projected 5, floor 10); no movement is appended.\<close>

theorem set_below_floor_appends_nothing:
  "actionDelta (sbAction (exStockBody ''set'' 5 None)) 5
       (getCurrentStock (transactions exStocked) 1 1 None None) = Some (- 10)
   \<and> updateStock exStocked 0 1 exCode (exStockBody ''set'' 5 None)
       = (exStocked, Inl (SafetyStockViolation 5 10))"
proof -
  have stk: "getCurrentStock (transactions exStocked) (Suc 0) (Suc 0) None None = 15"
    by (simp add: exStocked_def exDb_def exTx_def getCurrentStock_def stockMatch_def
        signedQtyExpr_def)
  have med: "medications exStocked (Suc 0) = Some exMed" "safetyStock (policy exMed) = 10"
    by (simp_all add: exStocked_def exDb_def exMed_def)
  show ?thesis
    by (simp add: updateStock_def exStockBody_def actionDelta_def Let_def stk med)
qed

text \<open>C10, amended. For a request of updateStock with action set, a hospital, a qty and an
  existing medication, and without lot and expiryDate: the current stock is the sum of the
  signed quantities of the movements of the hospital and medication, and the delta is qty
  minus that stock. When the delta is 0 no movement is appended, the state is unchanged and
  the reply carries the current stock. When the delta is negative and qty is below a
  positive safetyStock, the request is rejected with the violation and the state is
  unchanged. When the delta is not 0, the safetyStock is 0 or qty is at least the
  safetyStock, and the movement passes validation (the absolute delta is at least the
  schema minimum and the unit cost is not negative), exactly one movement is appended, an
  ADJUST of the hospital and medication whose quantity is the absolute value of the delta
  and whose sign is IN for a positive and OUT for a negative delta; when the movement fails
  validation the state is unchanged.\<close>

theorem stock_update_set:
  "sbHospitalId sb = Some h \<and> sbQty sb = Some q \<and> medications s m = Some med
   \<and> sbAction sb = Some ''set'' \<and> sbLot sb = None \<and> sbExpiryDate sb = None
   \<longrightarrow>
   (let cur = sum_list (map signedQtyExpr
                 (filter (\<lambda>d. hospital d = h \<and> medication d = m) (transactions s)));
        delta = q - cur;
        floor = safetyStock (policy med);
        storable = (\<bar>delta\<bar> \<ge> 1 / 1000000
                    \<and> (case sbUnitCost sb of Some c \<Rightarrow> c \<ge> 0 | None \<Rightarrow> unitPrice med \<ge> 0));
        r = updateStock s now m code sb
    in (delta = 0 \<longrightarrow> r = (s, Inr (NoChange cur)))
     \<and> (delta < 0 \<and> floor > 0 \<and> q < floor \<longrightarrow> r = (s, Inl (SafetyStockViolation q floor)))
     \<and> (delta \<noteq> 0 \<and> \<not> (floor > 0 \<and> q < floor) \<and> \<not> storable \<longrightarrow>
           fst r = s \<and> (\<exists>f. snd r = Inl (ValidationError f)))
     \<and> (delta \<noteq> 0 \<and> \<not> (floor > 0 \<and> q < floor) \<and> storable \<longrightarrow>
           (\<exists>d. transactions (fst r) = transactions s @ [d]
                \<and> hospital d = h \<and> medication d = m \<and> txType d = ADJUST
                \<and> qty d = \<bar>delta\<bar>
                \<and> adjustSign d = Some (if delta > 0 then SIGN_IN else SIGN_OUT))))"
proof (intro impI)
  assume v: "sbHospitalId sb = Some h \<and> sbQty sb = Some q \<and> medications s m = Some med
   \<and> sbAction sb = Some ''set'' \<and> sbLot sb = None \<and> sbExpiryDate sb = None"
  let ?cur = "getCurrentStock (transactions s) h m None None"
  let ?delta = "q - ?cur"
  let ?floor = "safetyStock (policy med)"
  let ?blocked = "?floor > 0 \<and> q < ?floor"
  let ?storable = "\<bar>?delta\<bar> \<ge> 1 / 1000000
                    \<and> (case sbUnitCost sb of Some c \<Rightarrow> c \<ge> 0 | None \<Rightarrow> unitPrice med \<ge> 0)"
  let ?d = "stockTx (length (transactions s)) now h m ?delta med sb"
  let ?r = "updateStock s now m code sb"
  from v have scope: "sbLot sb = None" "sbExpiryDate sb = None" by blast+
  from v have v': "sbHospitalId sb = Some h" "sbQty sb = Some q" "medications s m = Some med"
    by blast+
  from v have delta: "actionDelta (sbAction sb) q
        (getCurrentStock (transactions s) h m (sbLot sb)
           (map_option RawValue (sbExpiryDate sb))) = Some ?delta"
    by (simp add: actionDelta_def)
  note u = updateStock_valid [OF v' delta, of now code, unfolded scope option.map]
  have proj: "?cur + ?delta = q" by simp
  have zero: "?r = (s, Inr (NoChange ?cur))" if "?delta = 0"
    using that by (simp add: u)
  have blk: "?r = (s, Inl (SafetyStockViolation q ?floor))"
    if "?delta < 0 \<and> ?blocked"
    using that by (simp add: u Let_def)
  have bad: "fst ?r = s \<and> (\<exists>f. snd ?r = Inl (ValidationError f))"
    if "?delta \<noteq> 0 \<and> \<not> ?blocked \<and> \<not> ?storable"
  proof -
    from that have "validate ?d \<noteq> None"
      using validate_stockTx [of "length (transactions s)" now h m ?delta med sb] by blast
    then obtain e where e: "validate ?d = Some e" by auto
    then obtain f where "e = ValidationError f" using validate_Some by blast
    with e that show ?thesis by (simp add: u Let_def)
  qed
  have good: "\<exists>d. transactions (fst ?r) = transactions s @ [d]
                \<and> hospital d = h \<and> medication d = m \<and> txType d = ADJUST
                \<and> qty d = \<bar>?delta\<bar>
                \<and> adjustSign d = Some (if ?delta > 0 then SIGN_IN else SIGN_OUT)"
    if "?delta \<noteq> 0 \<and> \<not> ?blocked \<and> ?storable"
  proof -
    from that have "validate ?d = None"
      using validate_stockTx [of "length (transactions s)" now h m ?delta med sb] by blast
    with that have "transactions (fst ?r) = transactions s @ [?d]"
      by (simp add: u Let_def fst_reorder_case maybeTriggerReorder_transactions)
    moreover have "hospital ?d = h \<and> medication ?d = m \<and> txType ?d = ADJUST
                \<and> qty ?d = \<bar>?delta\<bar>
                \<and> adjustSign ?d = Some (if ?delta > 0 then SIGN_IN else SIGN_OUT)"
      by (simp add: stockTx_def)
    ultimately show ?thesis by blast
  qed
  show "let cur = sum_list (map signedQtyExpr
                 (filter (\<lambda>d. hospital d = h \<and> medication d = m) (transactions s)));
        delta = q - cur;
        floor = safetyStock (policy med);
        storable = (\<bar>delta\<bar> \<ge> 1 / 1000000
                    \<and> (case sbUnitCost sb of Some c \<Rightarrow> c \<ge> 0 | None \<Rightarrow> unitPrice med \<ge> 0));
        r = updateStock s now m code sb
    in (delta = 0 \<longrightarrow> r = (s, Inr (NoChange cur)))
     \<and> (delta < 0 \<and> floor > 0 \<and> q < floor \<longrightarrow> r = (s, Inl (SafetyStockViolation q floor)))
     \<and> (delta \<noteq> 0 \<and> \<not> (floor > 0 \<and> q < floor) \<and> \<not> storable \<longrightarrow>
           fst r = s \<and> (\<exists>f. snd r = Inl (ValidationError f)))
     \<and> (delta \<noteq> 0 \<and> \<not> (floor > 0 \<and> q < floor) \<and> storable \<longrightarrow>
           (\<exists>d. transactions (fst r) = transactions s @ [d]
                \<and> hospital d = h \<and> medication d = m \<and> txType d = ADJUST
                \<and> qty d = \<bar>delta\<bar>
                \<and> adjustSign d = Some (if delta > 0 then SIGN_IN else SIGN_OUT)))"
    unfolding Let_def getCurrentStock_total [symmetric] using zero blk bad good by blast
qed

theorem stock_update_set_witness:
  "updateStock exStocked 0 1 exCode (exStockBody ''set'' 15 None) = (exStocked, Inr (NoChange 15))
   \<and> (\<exists>d. transactions (fst (updateStock exStocked 0 1 exCode (exStockBody ''set'' 40 None)))
             = transactions exStocked @ [d]
           \<and> txType d = ADJUST \<and> qty d = 25 \<and> adjustSign d = Some SIGN_IN)
   \<and> (\<exists>d. transactions (fst (updateStock exStocked 0 1 exCode (exStockBody ''set'' 12 None)))
             = transactions exStocked @ [d]
           \<and> txType d = ADJUST \<and> qty d = 3 \<and> adjustSign d = Some SIGN_OUT)
   \<and> updateStock exStocked 0 1 exCode (exStockBody ''set'' 5 None)
       = (exStocked, Inl (SafetyStockViolation 5 10))"
proof -
  have stk: "sum_list (map signedQtyExpr
                (filter (\<lambda>d. hospital d = Suc 0 \<and> medication d = Suc 0)
                   (transactions exStocked))) = 15"
    by (simp add: exStocked_def exDb_def exTx_def signedQtyExpr_def)
  have med: "medications exStocked (Suc 0) = Some exMed" "safetyStock (policy exMed) = 10"
    "unitPrice exMed = 2"
    by (simp_all add: exStocked_def exDb_def exMed_def)
  have a: "updateStock exStocked 0 1 exCode (exStockBody ''set'' 15 None) = (exStocked, Inr (NoChange 15))"
    using stock_update_set [where s = exStocked and now = 0 and m = 1 and h = 1 and q = 15
        and med = exMed and code = exCode and sb = "exStockBody ''set'' 15 None"]
    by (simp add: exStockBody_def stk med Let_def)
  have b: "\<exists>d. transactions (fst (updateStock exStocked 0 1 exCode (exStockBody ''set'' 40 None)))
             = transactions exStocked @ [d]
           \<and> txType d = ADJUST \<and> qty d = 25 \<and> adjustSign d = Some SIGN_IN"
    using stock_update_set [where s = exStocked and now = 0 and m = 1 and h = 1 and q = 40
        and med = exMed and code = exCode and sb = "exStockBody ''set'' 40 None"]
    by (simp add: exStockBody_def stk med Let_def) blast
  have c: "\<exists>d. transactions (fst (updateStock exStocked 0 1 exCode (exStockBody ''set'' 12 None)))
             = transactions exStocked @ [d]
           \<and> txType d = ADJUST \<and> qty d = 3 \<and> adjustSign d = Some SIGN_OUT"
    using stock_update_set [where s = exStocked and now = 0 and m = 1 and h = 1 and q = 12
        and med = exMed and code = exCode and sb = "exStockBody ''set'' 12 None"]
    by (simp add: exStockBody_def stk med Let_def) blast
  have d: "updateStock exStocked 0 1 exCode (exStockBody ''set'' 5 None)
       = (exStocked, Inl (SafetyStockViolation 5 10))"
    using stock_update_set [where s = exStocked and now = 0 and m = 1 and h = 1 and q = 5
        and med = exMed and code = exCode and sb = "exStockBody ''set'' 5 None"]
    by (simp add: exStockBody_def stk med Let_def)
  from a b c d show ?thesis by simp
qed


text \<open>C5, as the claim states it, fails: with lot A (25 units, expired), lot B (4 units,
  expired) and lot C (3 units, no expiry) of one medication with safety stock 10, the
  write-off of lot A fails the safety rule (32 - 25 = 7 is below 10) and that of lot B
  does not (32 - 4 = 28); the operation ends with the violation of lot A and appends
  nothing, also not the OUT movement of lot B.\<close>

theorem blocked_scope_aborts_the_batch:
  "expiredLots (transactions exExpired) 1 10 None = [exLotA, exLotB]
   \<and> medications exExpired 1 = Some exMed
   \<and> safetyStock (policy exMed) = 10
   \<and> getCurrentStock (transactions exExpired) 1 1 None None - stock exLotA = 7
   \<and> getCurrentStock (transactions exExpired) 1 1 None None - stock exLotB = 28
   \<and> writeOffExpired exExpired 0 exWriteOff = (exExpired, Inl (SafetyStockViolation 7 10))"
proof -
  have m: "groupMedication exLotA = Suc 0" "groupMedication exLotB = Suc 0"
    "stock exLotA = 25" "stock exLotB = 4"
    by (simp_all add: exLotA_def exLotB_def)
  have w: "writeOffExpired exExpired 0 exWriteOff = (exExpired, Inl (SafetyStockViolation 7 10))"
    by (simp add: writeOffExpired_def exWriteOff_def exExpired_facts withTransaction_def m
        assertSafetyStock_def Let_def)
  from w m exExpired_facts show ?thesis by simp
qed

text \<open>C5, amended. In a batch write-off with a hospital and a cutoff date, the qualifying
  scopes are the groups (medication, lot, expiryDate) of the movements of the hospital (of
  the medication of the request, when it names one) with an expiry date not after the
  cutoff and a positive stock, each listed once with its stock. The batch is written off
  as a whole or not at all: every error leaves the state unchanged. When the write-off of
  one qualifying scope alone would take the stock of its medication below a positive
  safetyStock, the operation ends with an error and appends nothing, for no scope of the
  batch; the error is the violation of the safety rule or the validation error of a
  movement, and it is the violation when every scope has at least the minimum quantity of
  a movement. When the operation succeeds, the reply lists all qualifying scopes, and the
  movements appended are exactly one OUT with reason WRITE_OFF per qualifying scope whose
  medication exists, in order, each with the item, batch, expiry and stock of its scope;
  nothing reports a scope as skipped. The operation succeeds when every qualifying scope
  whose medication exists has at least the minimum quantity and the stock of the
  medication, less all its qualifying scopes, is not below a positive safetyStock.\<close>

theorem write_off_all_or_nothing:
  "woHospital body = Some h \<and> cutoffDate body = Some c \<longrightarrow>
   (let coll = transactions s;
        scopeStock = (\<lambda>m lt e. sum_list (map signedQtyExpr
            (filter (\<lambda>d. hospital d = h \<and> medication d = m \<and> lot d = lt
                           \<and> expiryDate d = Some e) coll)));
        total = (\<lambda>m. sum_list (map signedQtyExpr
            (filter (\<lambda>d. hospital d = h \<and> medication d = m) coll)));
        lots = expiredLots coll h c (woMedication body);
        listed = (\<lambda>m. sum_list (map stock (filter (\<lambda>l. groupMedication l = m) lots)));
        r = writeOffExpired s now body
    in distinct (map (\<lambda>l. (groupMedication l, groupLot l, groupExpiryDate l)) lots)
     \<and> (\<forall>m lt e.
          (\<exists>l \<in> set lots. groupMedication l = m \<and> groupLot l = lt \<and> groupExpiryDate l = Some e)
          \<longleftrightarrow> e \<le> c \<and> (case woMedication body of None \<Rightarrow> True | Some m0 \<Rightarrow> m = m0)
              \<and> scopeStock m lt e > 0)
     \<and> (\<forall>l \<in> set lots. \<exists>e. groupExpiryDate l = Some e
            \<and> stock l = scopeStock (groupMedication l) (groupLot l) e)
     \<and> (\<forall>e. snd r = Inl e \<longrightarrow> fst r = s)
     \<and> ((\<exists>l \<in> set lots. \<exists>med. medications s (groupMedication l) = Some med
              \<and> safetyStock (policy med) > 0
              \<and> total (groupMedication l) - stock l < safetyStock (policy med))
          \<longrightarrow> fst r = s
              \<and> ((\<exists>p f. snd r = Inl (SafetyStockViolation p f))
                  \<or> (\<exists>v. snd r = Inl (ValidationError v)))
              \<and> ((\<forall>l \<in> set lots. stock l \<ge> 1 / 1000000)
                    \<longrightarrow> (\<exists>p f. snd r = Inl (SafetyStockViolation p f))))
     \<and> (\<forall>rep. snd r = Inr rep \<longrightarrow>
           rep = lots
           \<and> (\<exists>ds. fst r = s\<lparr>transactions := transactions s @ ds\<rparr>
                 \<and> map scopeOf ds = map scopeOfGroup (filter (resolves s) lots)
                 \<and> list_all (\<lambda>d. hospital d = h \<and> txType d = OUT \<and> reason d = WRITE_OFF) ds))
     \<and> ((\<forall>l \<in> set lots. \<forall>med. medications s (groupMedication l) = Some med \<longrightarrow>
             stock l \<ge> 1 / 1000000
             \<and> (safetyStock (policy med) > 0 \<longrightarrow>
                  total (groupMedication l) - listed (groupMedication l)
                    \<ge> safetyStock (policy med)))
          \<longrightarrow> snd r = Inr lots))"
proof (intro impI)
  assume "woHospital body = Some h \<and> cutoffDate body = Some c"
  then have v: "woHospital body = Some h" "cutoffDate body = Some c" by blast+
  let ?lots = "expiredLots (transactions s) h c (woMedication body)"
  let ?r = "writeOffExpired s now body"
  let ?total = "\<lambda>m. getCurrentStock (transactions s) h m None None"
  let ?listed = "\<lambda>m. sum_list (map stock (filter (\<lambda>l. groupMedication l = m) ?lots))"
  let ?alone = "\<exists>l \<in> set ?lots. \<exists>med. medications s (groupMedication l) = Some med
              \<and> safetyStock (policy med) > 0
              \<and> ?total (groupMedication l) - stock l < safetyStock (policy med)"
  have r: "?r = (if ?lots = [] then (s, Inr [])
                else case writeOffLoop s now h ?lots s of
                       Inl e \<Rightarrow> (s, Inl e) | Inr w \<Rightarrow> (w, Inr ?lots))"
    using writeOffExpired_cases [OF v, of s now] by (simp add: Let_def)
  have dist: "distinct (map (\<lambda>l. (groupMedication l, groupLot l, groupExpiryDate l)) ?lots)"
    by (rule expiredLots_distinct)
  have listed: "(\<exists>l \<in> set ?lots. groupMedication l = m \<and> groupLot l = lt
                   \<and> groupExpiryDate l = Some e)
          \<longleftrightarrow> e \<le> c \<and> (case woMedication body of None \<Rightarrow> True | Some m0 \<Rightarrow> m = m0)
              \<and> sum_list (map signedQtyExpr
                   (filter (\<lambda>d. hospital d = h \<and> medication d = m \<and> lot d = lt
                                  \<and> expiryDate d = Some e) (transactions s))) > 0" for m lt e
    by (rule expiredLots_listed)
  have stocks: "\<exists>e. groupExpiryDate l = Some e
            \<and> stock l = sum_list (map signedQtyExpr
                (filter (\<lambda>d. hospital d = h \<and> medication d = groupMedication l
                               \<and> lot d = groupLot l \<and> expiryDate d = Some e) (transactions s)))"
    if "l \<in> set ?lots" for l
    using expiredLots_stock [OF that] by blast
  have pos: "\<forall>l \<in> set ?lots. stock l > 0"
    using expiredLots_stock by blast
  have err: "fst ?r = s" if "snd ?r = Inl e" for e
    using that by (auto simp: r split: if_splits sum.splits)
  have blocked: "fst ?r = s
              \<and> ((\<exists>p f. snd ?r = Inl (SafetyStockViolation p f))
                  \<or> (\<exists>v. snd ?r = Inl (ValidationError v)))
              \<and> ((\<forall>l \<in> set ?lots. stock l \<ge> 1 / 1000000)
                    \<longrightarrow> (\<exists>p f. snd ?r = Inl (SafetyStockViolation p f)))"
    if b: ?alone
  proof -
    from b have ne: "?lots \<noteq> []" by auto
    from writeOffLoop_blocked [OF refl b, of now] obtain e
      where e: "writeOffLoop s now h ?lots s = Inl e" by blast
    with ne have re: "?r = (s, Inl e)" by (simp add: r)
    from writeOffLoop_error [OF e]
    have kind: "(\<exists>p f. e = SafetyStockViolation p f) \<or> (\<exists>v. e = ValidationError v)" .
    have viol: "\<exists>p f. e = SafetyStockViolation p f" if "\<forall>l \<in> set ?lots. stock l \<ge> 1 / 1000000"
      using writeOffLoop_violation [OF e that] .
    from re kind viol show ?thesis by auto
  qed
  have ok: "rep = ?lots
           \<and> (\<exists>ds. fst ?r = s\<lparr>transactions := transactions s @ ds\<rparr>
                 \<and> map scopeOf ds = map scopeOfGroup (filter (resolves s) ?lots)
                 \<and> list_all (\<lambda>d. hospital d = h \<and> txType d = OUT \<and> reason d = WRITE_OFF) ds)"
    if rep: "snd ?r = Inr rep" for rep
  proof (cases "?lots = []")
    case True
    then have e: "?r = (s, Inr [])" by (simp add: r)
    have "fst ?r = s\<lparr>transactions := transactions s @ []\<rparr>
        \<and> map scopeOf [] = map scopeOfGroup (filter (resolves s) ?lots)
        \<and> list_all (\<lambda>d. hospital d = h \<and> txType d = OUT \<and> reason d = WRITE_OFF) []"
      using e True by simp
    moreover have "rep = ?lots" using e rep True by simp
    ultimately show ?thesis by blast
  next
    case False
    with rep obtain w where w: "writeOffLoop s now h ?lots s = Inr w" "?r = (w, Inr ?lots)"
      by (auto simp: r split: sum.splits)
    from writeOffLoop_done [OF refl w(1)] w(2) rep show ?thesis by auto
  qed
  have runs: "snd ?r = Inr ?lots"
    if a: "\<forall>l \<in> set ?lots. \<forall>med. medications s (groupMedication l) = Some med \<longrightarrow>
             stock l \<ge> 1 / 1000000
             \<and> (safetyStock (policy med) > 0 \<longrightarrow>
                  ?total (groupMedication l) - ?listed (groupMedication l)
                    \<ge> safetyStock (policy med))"
  proof -
    have "\<forall>l \<in> set ?lots. \<forall>med. medications s (groupMedication l) = Some med \<longrightarrow>
        stock l \<ge> 1 / 1000000
        \<and> \<not> (safetyStock (policy med) > 0
              \<and> getCurrentStock (transactions s) h (groupMedication l) None None - stock l
                  < safetyStock (policy med))"
    proof (intro ballI allI impI)
      fix l med
      assume l: "l \<in> set ?lots" and med: "medications s (groupMedication l) = Some med"
      from a l med have big: "stock l \<ge> 1 / 1000000"
        and fl: "safetyStock (policy med) > 0 \<longrightarrow>
                  ?total (groupMedication l) - ?listed (groupMedication l)
                    \<ge> safetyStock (policy med)"
        by blast+
      from stock_le_sum [OF l pos] have "stock l \<le> ?listed (groupMedication l)" .
      with fl have "\<not> (safetyStock (policy med) > 0
              \<and> getCurrentStock (transactions s) h (groupMedication l) None None - stock l
                  < safetyStock (policy med))"
        by auto
      with big show "stock l \<ge> 1 / 1000000
        \<and> \<not> (safetyStock (policy med) > 0
              \<and> getCurrentStock (transactions s) h (groupMedication l) None None - stock l
                  < safetyStock (policy med))"
        by blast
    qed
    from writeOffLoop_runs [OF refl this, of now] obtain w'
      where "writeOffLoop s now h ?lots s = Inr w'" by blast
    then show ?thesis by (simp add: r)
  qed
  show "let coll = transactions s;
        scopeStock = (\<lambda>m lt e. sum_list (map signedQtyExpr
            (filter (\<lambda>d. hospital d = h \<and> medication d = m \<and> lot d = lt
                           \<and> expiryDate d = Some e) coll)));
        total = (\<lambda>m. sum_list (map signedQtyExpr
            (filter (\<lambda>d. hospital d = h \<and> medication d = m) coll)));
        lots = expiredLots coll h c (woMedication body);
        listed = (\<lambda>m. sum_list (map stock (filter (\<lambda>l. groupMedication l = m) lots)));
        r = writeOffExpired s now body
    in distinct (map (\<lambda>l. (groupMedication l, groupLot l, groupExpiryDate l)) lots)
     \<and> (\<forall>m lt e.
          (\<exists>l \<in> set lots. groupMedication l = m \<and> groupLot l = lt \<and> groupExpiryDate l = Some e)
          \<longleftrightarrow> e \<le> c \<and> (case woMedication body of None \<Rightarrow> True | Some m0 \<Rightarrow> m = m0)
              \<and> scopeStock m lt e > 0)
     \<and> (\<forall>l \<in> set lots. \<exists>e. groupExpiryDate l = Some e
            \<and> stock l = scopeStock (groupMedication l) (groupLot l) e)
     \<and> (\<forall>e. snd r = Inl e \<longrightarrow> fst r = s)
     \<and> ((\<exists>l \<in> set lots. \<exists>med. medications s (groupMedication l) = Some med
              \<and> safetyStock (policy med) > 0
              \<and> total (groupMedication l) - stock l < safetyStock (policy med))
          \<longrightarrow> fst r = s
              \<and> ((\<exists>p f. snd r = Inl (SafetyStockViolation p f))
                  \<or> (\<exists>v. snd r = Inl (ValidationError v)))
              \<and> ((\<forall>l \<in> set lots. stock l \<ge> 1 / 1000000)
                    \<longrightarrow> (\<exists>p f. snd r = Inl (SafetyStockViolation p f))))
     \<and> (\<forall>rep. snd r = Inr rep \<longrightarrow>
           rep = lots
           \<and> (\<exists>ds. fst r = s\<lparr>transactions := transactions s @ ds\<rparr>
                 \<and> map scopeOf ds = map scopeOfGroup (filter (resolves s) lots)
                 \<and> list_all (\<lambda>d. hospital d = h \<and> txType d = OUT \<and> reason d = WRITE_OFF) ds))
     \<and> ((\<forall>l \<in> set lots. \<forall>med. medications s (groupMedication l) = Some med \<longrightarrow>
             stock l \<ge> 1 / 1000000
             \<and> (safetyStock (policy med) > 0 \<longrightarrow>
                  total (groupMedication l) - listed (groupMedication l)
                    \<ge> safetyStock (policy med)))
          \<longrightarrow> snd r = Inr lots)"
    unfolding Let_def getCurrentStock_total [symmetric]
  proof (intro conjI allI impI)
    show "distinct (map (\<lambda>l. (groupMedication l, groupLot l, groupExpiryDate l)) ?lots)"
      by (rule dist)
    show "\<forall>l \<in> set ?lots. \<exists>e. groupExpiryDate l = Some e
            \<and> stock l = sum_list (map signedQtyExpr
                (filter (\<lambda>d. hospital d = h \<and> medication d = groupMedication l
                               \<and> lot d = groupLot l \<and> expiryDate d = Some e) (transactions s)))"
      using stocks by blast
  qed (use listed err blocked ok runs in blast)+
qed

theorem write_off_all_or_nothing_witness:
  "fst (writeOffExpired exExpired 0 exWriteOff) = exExpired
   \<and> (\<exists>p f. snd (writeOffExpired exExpired 0 exWriteOff) = Inl (SafetyStockViolation p f))
   \<and> snd (writeOffExpired exFresh 0 exWriteOff) = Inr [exLotB]
   \<and> (\<exists>ds. fst (writeOffExpired exFresh 0 exWriteOff)
              = exFresh\<lparr>transactions := transactions exFresh @ ds\<rparr>
           \<and> map scopeOf ds = [(1, Some ''B'', Some 6, 4)])"
proof -
  have m: "groupMedication exLotA = Suc 0" "groupMedication exLotB = Suc 0"
    "stock exLotA = 25" "stock exLotB = 4"
    by (simp_all add: exLotA_def exLotB_def)
  have f: "expiredLots (transactions exFresh) (Suc 0) 10 None = [exLotB]"
    "sum_list (map signedQtyExpr
        (filter (\<lambda>d. hospital d = Suc 0 \<and> medication d = Suc 0) (transactions exFresh))) = 34"
    "medications exFresh (Suc 0) = Some exMed"
    by (simp_all add: exFresh_def exDb_def exTx_def exMed_def expiredLots_def expiredMatch_def
        lotKey_def signedQtyExpr_def exLotB_def)
  have e: "sum_list (map signedQtyExpr
        (filter (\<lambda>d. hospital d = Suc 0 \<and> medication d = Suc 0) (transactions exExpired))) = 32"
    using exExpired_facts(2) by (simp only: getCurrentStock_total)
  have body: "woHospital exWriteOff = Some (Suc 0)" "cutoffDate exWriteOff = Some 10"
    "woMedication exWriteOff = None"
    by (simp_all add: exWriteOff_def)
  have valid: "woHospital exWriteOff = Some 1 \<and> cutoffDate exWriteOff = Some 10"
    using body by simp
  note t1 = write_off_all_or_nothing [where s = exExpired and now = 0 and body = exWriteOff
      and h = 1 and c = 10, THEN mp, OF valid, unfolded Let_def]
  note t2 = write_off_all_or_nothing [where s = exFresh and now = 0 and body = exWriteOff
      and h = 1 and c = 10, THEN mp, OF valid, unfolded Let_def]
  note blocked1 = t1 [THEN conjunct2, THEN conjunct2, THEN conjunct2, THEN conjunct2,
      THEN conjunct1]
  note done2 = t2 [THEN conjunct2, THEN conjunct2, THEN conjunct2, THEN conjunct2,
      THEN conjunct2, THEN conjunct1]
  note runs2 = t2 [THEN conjunct2, THEN conjunct2, THEN conjunct2, THEN conjunct2,
      THEN conjunct2, THEN conjunct2]
  have "\<exists>l \<in> set (expiredLots (transactions exExpired) 1 10 (woMedication exWriteOff)).
          \<exists>med. medications exExpired (groupMedication l) = Some med
            \<and> safetyStock (policy med) > 0
            \<and> sum_list (map signedQtyExpr
                 (filter (\<lambda>d. hospital d = 1 \<and> medication d = groupMedication l)
                    (transactions exExpired))) - stock l < safetyStock (policy med)"
    by (simp add: body exExpired_facts m e)
  from blocked1 [THEN mp, OF this]
  have a: "fst (writeOffExpired exExpired 0 exWriteOff) = exExpired"
    and a': "(\<forall>l \<in> set (expiredLots (transactions exExpired) 1 10 (woMedication exWriteOff)).
                 stock l \<ge> 1 / 1000000)
             \<longrightarrow> (\<exists>p f. snd (writeOffExpired exExpired 0 exWriteOff)
                          = Inl (SafetyStockViolation p f))"
    by blast+
  have "\<forall>l \<in> set (expiredLots (transactions exExpired) 1 10 (woMedication exWriteOff)).
          stock l \<ge> 1 / 1000000"
    by (simp add: body exExpired_facts m)
  with a' have v: "\<exists>p f. snd (writeOffExpired exExpired 0 exWriteOff)
                          = Inl (SafetyStockViolation p f)"
    by blast
  have "\<forall>l \<in> set (expiredLots (transactions exFresh) 1 10 (woMedication exWriteOff)).
          \<forall>med. medications exFresh (groupMedication l) = Some med \<longrightarrow>
             stock l \<ge> 1 / 1000000
             \<and> (safetyStock (policy med) > 0 \<longrightarrow>
                  sum_list (map signedQtyExpr
                     (filter (\<lambda>d. hospital d = 1 \<and> medication d = groupMedication l)
                        (transactions exFresh)))
                  - sum_list (map stock (filter (\<lambda>l'. groupMedication l' = groupMedication l)
                       (expiredLots (transactions exFresh) 1 10 (woMedication exWriteOff))))
                    \<ge> safetyStock (policy med))"
    by (simp add: body f m exExpired_facts)
  from runs2 [THEN mp, OF this]
  have b: "snd (writeOffExpired exFresh 0 exWriteOff) = Inr [exLotB]"
    by (simp add: body f)
  have sg: "map scopeOfGroup (filter (resolves exFresh)
              (expiredLots (transactions exFresh) 1 10 (woMedication exWriteOff)))
            = [(1, Some ''B'', Some 6, 4)]"
    by (simp add: body f m resolves_def scopeOfGroup_def exLotB_def orUndefined_def)
  from done2 [THEN spec, THEN mp, OF b]
  have c: "\<exists>ds. fst (writeOffExpired exFresh 0 exWriteOff)
              = exFresh\<lparr>transactions := transactions exFresh @ ds\<rparr>
           \<and> map scopeOf ds = [(1, Some ''B'', Some 6, 4)]"
    unfolding sg by (elim conjE exE) (intro exI conjI; assumption)
  from a v b c show ?thesis by simp
qed


text \<open>C4. An order of hospital 1 in status SENT has one line, 10 units of medication 1. A
  receipt of all 10 units is accepted and its IN movement is committed: the summary of the
  reply has received 10 and pending 0 for the line, yet the order of the reply and of the
  store is still SENT. The totals that decide the status are aggregated without the
  session while the transaction is open, so they do not count the receipt being
  processed. The next receipt against the order (1 more unit) finds the 10 units
  committed and only then marks the order RECEIVED.\<close>

theorem full_receipt_leaves_order_open:
  "snd (receivePO exOrdered 0 0 [exItem 1 10])
     = Inr \<lparr>freshPO = exPO,
            receivedSummary = [\<lparr>sumMedication = 1, ordered = 10, received = 10, pending = 0\<rparr>]\<rparr>
   \<and> status exPO = SENT
   \<and> map status (orders (fst (receivePO exOrdered 0 0 [exItem 1 10]))) = [SENT]
   \<and> map qty (transactions (fst (receivePO exOrdered 0 0 [exItem 1 10]))) = [10]
   \<and> map status (orders (fst (receivePO (fst (receivePO exOrdered 0 0 [exItem 1 10])) 1 0
                                   [exItem 1 1]))) = [RECEIVED]"
proof -
  let ?d = "receiptTx 0 0 exPO (Suc 0) 10 exMed (exItem (Suc 0) 10)"
  let ?s1 = "exOrdered\<lparr>transactions := [?d]\<rparr>"
  have v: "validate (receiptTx i now exPO (Suc 0) q exMed (exItem (Suc 0) q)) = None" if "q \<ge> 1" for i now q
    unfolding validate_None_iff using that by (simp add: receiptTx_def exItem_def exMed_def)
  have po: "poId exPO = 0" "status exPO = SENT" "poHospital exPO = 1"
    "lines exPO = [\<lparr>lineMedication = 1, lineQty = 10, lineUnitPrice = 2\<rparr>]"
    by (simp_all add: exPO_def)
  have it: "itemMedication (exItem (Suc 0) q) = Some (Suc 0)" "itemQty (exItem (Suc 0) q) = Some q" for q
    by (simp_all add: exItem_def)
  have loop: "receiveLoop 0 exPO [exItem (Suc 0) 10] exOrdered = Inr ?s1"
    using v [of 10 0 0] by (simp add: it exOrdered_facts saveTx_cases)
  have none: "getReceivedQtyByMedication [] 0 = (\<lambda>m. None)"
    by (simp add: getReceivedQtyByMedication_def)
  have body: "receiveBody exOrdered 0 exPO [exItem (Suc 0) 10] exOrdered = Inr ?s1"
    by (simp only: receiveBody_def loop) (simp add: exOrdered_facts po none orZero_def Let_def)
  have d: "refType ?d = PO" "refId ?d = Some 0" "txType ?d = IN" "medication ?d = Suc 0" "qty ?d = 10"
    by (simp_all add: receiptTx_def exPO_def)
  have got: "getReceivedQtyByMedication [?d] 0 (Suc 0) = Some 10"
    by (simp add: getReceivedQtyByMedication_def d)
  have tot: "receivedTotals [?d] exPO
      = [\<lparr>sumMedication = 1, ordered = 10, received = 10, pending = 0\<rparr>]"
    by (simp add: receivedTotals_def po got orZero_def Let_def)
  have o1: "orders ?s1 = [exPO]" "findById [exPO] 0 = Some exPO"
    by (simp_all add: exOrdered_def exDb_def findById_def exPO_def)
  have r1: "receivePO exOrdered 0 0 [exItem (Suc 0) 10]
      = (?s1\<lparr>notifications := notifications ?s1 @
            [\<lparr>notifHospital = 1, notifType = ORDER_STATUS, notifMedication = None,
              notifPurchaseOrder = Some 0, metaStockQty = None, metaReorderPoint = None\<rparr>]\<rparr>,
         Inr \<lparr>freshPO = exPO,
              receivedSummary = [\<lparr>sumMedication = 1, ordered = 10, received = 10, pending = 0\<rparr>]\<rparr>)"
    by (simp add: receivePO_def exOrdered_facts po it withTransaction_def body o1 tot)
  define s2 where "s2 = fst (receivePO exOrdered 0 0 [exItem (Suc 0) 10])"
  have s2: "transactions s2 = [?d]" "orders s2 = [exPO]"
    "medications s2 (Suc 0) = Some exMed"
    by (simp_all add: s2_def r1 o1 exOrdered_facts)
  let ?d2 = "receiptTx 1 1 exPO (Suc 0) 1 exMed (exItem (Suc 0) 1)"
  have loop2: "receiveLoop 1 exPO [exItem (Suc 0) 1] s2 = Inr (s2\<lparr>transactions := [?d, ?d2]\<rparr>)"
    using v [of 1 1 1] by (simp add: it s2 saveTx_cases)
  have body2: "receiveBody s2 1 exPO [exItem (Suc 0) 1] s2
      = Inr (savePO (exPO\<lparr>status := RECEIVED, receivedAt := Some 1\<rparr>)
               (s2\<lparr>transactions := [?d, ?d2]\<rparr>))"
    by (simp only: receiveBody_def loop2) (simp add: s2 po got orZero_def Let_def)
  have r2: "map status (orders (fst (receivePO s2 1 0 [exItem (Suc 0) 1]))) = [RECEIVED]"
    by (simp add: receivePO_def s2 o1 po it withTransaction_def body2 savePO_def)
      (simp add: findById_def po)
  from r1 r2 po(2) s2 d(5) show ?thesis
    unfolding s2_def by simp
qed

end
